theory Spec2Isabelle
  imports Complex_Main "HOL-Library.AList"
begin

section \<open>JSON payloads and the Python operations applied to them\<close>

text \<open>
  \<^verbatim>\<open>request.json\<close> is any parsed JSON value: \<^verbatim>\<open>None\<close>, a bool, an int, a float, a
  str, a list or a dict. A dict is an association list in insertion order; lookups take
  the first binding of a key. A float carries the rational value of the double.
\<close>

datatype json =
    JNull
  | JBool bool
  | JInt int
  | JFloat rat
  | JStr string
  | JArr "json list"
  | JObj "(string \<times> json) list"

text \<open>The exceptions the handlers can meet. \<open>StoreError\<close> stands for whatever the
  document-store client or \<^verbatim>\<open>to_shape\<close> raises: anything that is not an
  \<^verbatim>\<open>SQLAlchemyError\<close>.\<close>

datatype exn = SQLAlchemyError | TypeError | AttributeError | KeyError | StoreError

text \<open>Truth value of a JSON value, as \<^verbatim>\<open>not user_data\<close> and
  \<^verbatim>\<open>location_data and ...\<close> test it.\<close>

fun py_truthy :: "json \<Rightarrow> bool" where
  "py_truthy JNull = False"
| "py_truthy (JBool b) = b"
| "py_truthy (JInt n) = (n \<noteq> 0)"
| "py_truthy (JFloat q) = (q \<noteq> 0)"
| "py_truthy (JStr t) = (t \<noteq> [])"
| "py_truthy (JArr xs) = (xs \<noteq> [])"
| "py_truthy (JObj kvs) = (kvs \<noteq> [])"

text \<open>\<^verbatim>\<open>needle in hay\<close> on two strings: substring search.\<close>

fun py_substring :: "string \<Rightarrow> string \<Rightarrow> bool" where
  "py_substring needle [] = (needle = [])"
| "py_substring needle (c # cs) =
     (take (length needle) (c # cs) = needle \<or> py_substring needle cs)"

text \<open>\<^verbatim>\<open>k in v\<close> for a string \<open>k\<close>: key membership on a dict, element membership on
  a list, substring on a str, \<^verbatim>\<open>TypeError\<close> on everything else.\<close>

fun py_in :: "string \<Rightarrow> json \<Rightarrow> exn + bool" where
  "py_in k (JObj kvs) = Inr (k \<in> set (map fst kvs))"
| "py_in k (JArr xs) = Inr (JStr k \<in> set xs)"
| "py_in k (JStr t) = Inr (py_substring k t)"
| "py_in k JNull = Inl TypeError"
| "py_in k (JBool b) = Inl TypeError"
| "py_in k (JInt n) = Inl TypeError"
| "py_in k (JFloat q) = Inl TypeError"

text \<open>\<^verbatim>\<open>v[k]\<close> for a string \<open>k\<close>: only a dict can be indexed by a string.\<close>

fun py_getitem :: "json \<Rightarrow> string \<Rightarrow> exn + json" where
  "py_getitem (JObj kvs) k = (case map_of kvs k of None \<Rightarrow> Inl KeyError | Some v \<Rightarrow> Inr v)"
| "py_getitem (JArr xs) k = Inl TypeError"
| "py_getitem (JStr t) k = Inl TypeError"
| "py_getitem JNull k = Inl TypeError"
| "py_getitem (JBool b) k = Inl TypeError"
| "py_getitem (JInt n) k = Inl TypeError"
| "py_getitem (JFloat q) k = Inl TypeError"

text \<open>\<^verbatim>\<open>v.copy()\<close>: dicts and lists have it, nothing else does.\<close>

fun py_copy :: "json \<Rightarrow> exn + json" where
  "py_copy (JObj kvs) = Inr (JObj kvs)"
| "py_copy (JArr xs) = Inr (JArr xs)"
| "py_copy (JStr t) = Inl AttributeError"
| "py_copy JNull = Inl AttributeError"
| "py_copy (JBool b) = Inl AttributeError"
| "py_copy (JInt n) = Inl AttributeError"
| "py_copy (JFloat q) = Inl AttributeError"

text \<open>\<^verbatim>\<open>v.pop(k, None)\<close>: on a dict, the value (or \<^verbatim>\<open>None\<close>) and the dict without the
  key; \<^verbatim>\<open>list.pop\<close> takes one argument at most, so two raise \<^verbatim>\<open>TypeError\<close>.\<close>

fun py_pop :: "json \<Rightarrow> string \<Rightarrow> exn + json \<times> (string \<times> json) list" where
  "py_pop (JObj kvs) k =
     Inr (case map_of kvs k of None \<Rightarrow> JNull | Some v \<Rightarrow> v, AList.delete k kvs)"
| "py_pop (JArr xs) k = Inl TypeError"
| "py_pop (JStr t) k = Inl AttributeError"
| "py_pop JNull k = Inl AttributeError"
| "py_pop (JBool b) k = Inl AttributeError"
| "py_pop (JInt n) k = Inl AttributeError"
| "py_pop (JFloat q) k = Inl AttributeError"

section \<open>The two stores, the message bus and the trace of calls\<close>

text \<open>A field of a stored document is a JSON value or the sentinel
  \<^verbatim>\<open>firestore.SERVER_TIMESTAMP\<close>.\<close>

datatype fsval = Val json | SERVER_TIMESTAMP

type_synonym document = "(string \<times> fsval) list"

definition to_fields :: "(string \<times> json) list \<Rightarrow> document" where
  "to_fields kvs = map (\<lambda>(k, v). (k, Val v)) kvs"

text \<open>A row of the table \<^verbatim>\<open>user_locations\<close>: the class \<^verbatim>\<open>UserLocation\<close>, whose
  \<open>location\<close> is assigned a WKT string.\<close>

datatype user_location = UserLocation (user_id: string) (location: string)

text \<open>What \<^verbatim>\<open>to_shape\<close> returns: a point with \<open>x\<close> and \<open>y\<close>.\<close>

datatype point = Point (point_x: json) (point_y: json)

text \<open>The dictionary \<^verbatim>\<open>event\<close> that \<^verbatim>\<open>publish_event\<close> builds.\<close>

datatype event = Event
  (event_type: string) (timestamp: string) (event_user_id: string) (event_data: json)
  (source_service: string) (changes: "json option")

text \<open>
  Every call on a collaborator is recorded, in order, as the test suite's mocks record
  them: the document client (\<open>DocGet\<close>, \<open>DocSet\<close>, \<open>DocUpdate\<close>, \<open>DocDelete\<close>), the
  relational session (\<open>Query\<close>, \<open>Add\<close>, \<open>Delete\<close>, \<open>Commit\<close>, \<open>Rollback\<close>),
  \<^verbatim>\<open>to_shape\<close>, \<^verbatim>\<open>publish_event(topic, event_type, user_id, data)\<close> and the producer's
  \<^verbatim>\<open>produce(topic, key, value)\<close>.
\<close>

datatype call =
    DocGet string
  | DocSet string document
  | DocUpdate string document
  | DocDelete string
  | Query string
  | Add user_location
  | Delete user_location
  | Commit
  | Rollback
  | ToShape string
  | PublishEvent string string string json
  | Produce string string event

text \<open>
  The module's globals and what lies outside the module. \<open>db\<close>, \<open>db_session\<close> and
  \<open>producer\<close> say whether the global is set (not \<^verbatim>\<open>None\<close>); \<open>to_shape\<close> is \<open>None\<close>
  when the import failed. \<open>raises\<close> is the fault plan: the collaborator calls that raise.
  \<open>py_format\<close> is Python's formatting of a value inside an f-string and \<open>now\<close> the
  clock's ISO-8601 text; both are parameters.
\<close>

record env =
  db :: bool
  db_session :: bool
  producer :: bool
  to_shape :: "(string \<Rightarrow> point) option"
  raises :: "call \<Rightarrow> bool"
  py_format :: "json \<Rightarrow> string"
  now :: string

text \<open>
  The state: the document collection \<^verbatim>\<open>users\<close>, the committed rows of
  \<^verbatim>\<open>user_locations\<close>, the rows as the session's open transaction sees them, and the
  trace of calls.
\<close>

record state =
  users :: "string \<Rightarrow> document option"
  user_locations :: "user_location list"
  session :: "user_location list"
  calls :: "call list"

definition record_call :: "call \<Rightarrow> state \<Rightarrow> state" where
  "record_call c s = s\<lparr>calls := calls s @ [c]\<rparr>"

subsection \<open>The document store\<close>

definition doc_get :: "env \<Rightarrow> string \<Rightarrow> state \<Rightarrow> (exn + document option) \<times> state" where
  "doc_get e uid s =
     (if raises e (DocGet uid) then (Inl StoreError, record_call (DocGet uid) s)
      else (Inr (users s uid), record_call (DocGet uid) s))"

definition doc_set :: "env \<Rightarrow> string \<Rightarrow> document \<Rightarrow> state \<Rightarrow> (exn + unit) \<times> state" where
  "doc_set e uid d s =
     (if raises e (DocSet uid d) then (Inl StoreError, record_call (DocSet uid d) s)
      else (Inr (), record_call (DocSet uid d) (s\<lparr>users := (users s)(uid \<mapsto> d)\<rparr>)))"

text \<open>A partial update overwrites the fields it names and keeps the others; it raises
  when the document does not exist.\<close>

definition merge_fields :: "document \<Rightarrow> document \<Rightarrow> document" where
  "merge_fields old upd = fold (\<lambda>(k, v). AList.update k v) upd old"

definition doc_update :: "env \<Rightarrow> string \<Rightarrow> document \<Rightarrow> state \<Rightarrow> (exn + unit) \<times> state" where
  "doc_update e uid d s =
     (if raises e (DocUpdate uid d) then (Inl StoreError, record_call (DocUpdate uid d) s)
      else (case users s uid of
              None \<Rightarrow> (Inl StoreError, record_call (DocUpdate uid d) s)
            | Some old \<Rightarrow>
                (Inr (), record_call (DocUpdate uid d)
                           (s\<lparr>users := (users s)(uid \<mapsto> merge_fields old d)\<rparr>))))"

definition doc_delete :: "env \<Rightarrow> string \<Rightarrow> state \<Rightarrow> (exn + unit) \<times> state" where
  "doc_delete e uid s =
     (if raises e (DocDelete uid) then (Inl StoreError, record_call (DocDelete uid) s)
      else (Inr (), record_call (DocDelete uid) (s\<lparr>users := (users s)(uid := None)\<rparr>)))"

subsection \<open>The relational session\<close>

text \<open>\<^verbatim>\<open>db_session.query(UserLocation).filter_by(user_id=uid).first()\<close>\<close>

definition query_first :: "env \<Rightarrow> string \<Rightarrow> state \<Rightarrow> (exn + user_location option) \<times> state" where
  "query_first e uid s =
     (if raises e (Query uid) then (Inl SQLAlchemyError, record_call (Query uid) s)
      else (Inr (find (\<lambda>r. user_id r = uid) (session s)), record_call (Query uid) s))"

definition session_add :: "env \<Rightarrow> user_location \<Rightarrow> state \<Rightarrow> (exn + unit) \<times> state" where
  "session_add e r s =
     (if raises e (Add r) then (Inl SQLAlchemyError, record_call (Add r) s)
      else (Inr (), record_call (Add r) (s\<lparr>session := session s @ [r]\<rparr>)))"

definition session_delete :: "env \<Rightarrow> user_location \<Rightarrow> state \<Rightarrow> (exn + unit) \<times> state" where
  "session_delete e r s =
     (if raises e (Delete r) then (Inl SQLAlchemyError, record_call (Delete r) s)
      else (Inr (), record_call (Delete r) (s\<lparr>session := remove1 r (session s)\<rparr>)))"

text \<open>\<^verbatim>\<open>location_record.location = wkt_point\<close>: the attribute of the queried row (the first
  one of that user) is assigned; no call is made.\<close>

fun assign_location :: "string \<Rightarrow> string \<Rightarrow> user_location list \<Rightarrow> user_location list" where
  "assign_location uid wkt [] = []"
| "assign_location uid wkt (r # rs) =
     (if user_id r = uid then UserLocation uid wkt # rs else r # assign_location uid wkt rs)"

text \<open>\<open>user_id\<close> is the primary key: a commit that would leave two rows with one
  \<open>user_id\<close> raises, as does a commit the fault plan fails.\<close>

definition commit :: "env \<Rightarrow> state \<Rightarrow> (exn + unit) \<times> state" where
  "commit e s =
     (if raises e Commit \<or> \<not> distinct (map user_id (session s))
      then (Inl SQLAlchemyError, record_call Commit s)
      else (Inr (), record_call Commit (s\<lparr>user_locations := session s\<rparr>)))"

definition rollback :: "state \<Rightarrow> state" where
  "rollback s = record_call Rollback (s\<lparr>session := user_locations s\<rparr>)"

subsection \<open>publish\_event\<close>

definition publish_event ::
  "env \<Rightarrow> string \<Rightarrow> string \<Rightarrow> string \<Rightarrow> json \<Rightarrow> json option \<Rightarrow> state \<Rightarrow> state" where
  "publish_event e topic etype uid payload chg s =
     (let s1 = record_call (PublishEvent topic etype uid payload) s in
      if \<not> producer e then s1
      else
        let ev = Event etype (now e) uid payload ''servico-usuarios''
                   (case chg of None \<Rightarrow> None
                    | Some c \<Rightarrow> if py_truthy c then Some c else None)
        in record_call (Produce topic uid ev) s1)"

section \<open>The handlers\<close>

datatype err =
    DepsNotInitialised
  | RequiredFields
  | UpdateDataRequired
  | NotFound
  | GeoDbError
  | CreateError
  | FetchError
  | UpdateError
  | DeleteError
  | Unhandled exn

datatype body =
    Error err
  | Created string
  | User document
  | Updated string
  | NoContent

type_synonym response = "body \<times> nat"

text \<open>\<^verbatim>\<open>f'POINT({lon} {lat})'\<close>\<close>

definition wkt_point :: "env \<Rightarrow> json \<Rightarrow> json \<Rightarrow> string" where
  "wkt_point e lon lat = ''POINT('' @ py_format e lon @ '' '' @ py_format e lat @ '')''"

text \<open>
  The test both writing handlers make on \<^verbatim>\<open>location_data\<close>, and the string they build:
  \<^verbatim>\<open>
  if location_data and 'latitude' in location_data and 'longitude' in location_data:
      lat = location_data['latitude']
      lon = location_data['longitude']
      wkt_point = f'POINT({lon} {lat})'
  \<close>
  \<open>Inr None\<close> when the test is false, \<open>Inl\<close> the exception it or the indexing raises.
\<close>

definition location_wkt :: "env \<Rightarrow> json \<Rightarrow> exn + string option" where
  "location_wkt e location_data =
     (if \<not> py_truthy location_data then Inr None
      else case py_in ''latitude'' location_data of
        Inl x \<Rightarrow> Inl x
      | Inr False \<Rightarrow> Inr None
      | Inr True \<Rightarrow>
          (case py_in ''longitude'' location_data of
             Inl x \<Rightarrow> Inl x
           | Inr False \<Rightarrow> Inr None
           | Inr True \<Rightarrow>
               (case py_getitem location_data ''latitude'' of
                  Inl x \<Rightarrow> Inl x
                | Inr lat \<Rightarrow>
                    (case py_getitem location_data ''longitude'' of
                       Inl x \<Rightarrow> Inl x
                     | Inr lon \<Rightarrow> Inr (Some (wkt_point e lon lat))))))"

text \<open>The \<^verbatim>\<open>except\<close> clauses of the writing handlers: roll back, then answer 500 with
  the geospatial message for an \<^verbatim>\<open>SQLAlchemyError\<close> and the handler's own otherwise.\<close>

definition on_exception :: "err \<Rightarrow> exn \<Rightarrow> state \<Rightarrow> response \<times> state" where
  "on_exception other x s =
     ((Error (if x = SQLAlchemyError then GeoDbError else other), 500), rollback s)"

subsection \<open>create\_user\<close>

text \<open>The body of the \<^verbatim>\<open>try\<close> of \<^verbatim>\<open>create_user\<close>.\<close>

definition create_user_try ::
  "env \<Rightarrow> string \<Rightarrow> json \<Rightarrow> json \<Rightarrow> document \<Rightarrow> state \<Rightarrow> (exn + response) \<times> state" where
  "create_user_try e uid user_data location_data firestore_data s =
     (case location_wkt e location_data of
        Inl x \<Rightarrow> (Inl x, s)
      | Inr w \<Rightarrow>
          (case (case w of
                   None \<Rightarrow> (Inr (), s)
                 | Some wkt \<Rightarrow> session_add e (UserLocation uid wkt) s) of
             (Inl x, s1) \<Rightarrow> (Inl x, s1)
           | (Inr _, s1) \<Rightarrow>
               (case doc_set e uid firestore_data s1 of
                  (Inl x, s2) \<Rightarrow> (Inl x, s2)
                | (Inr _, s2) \<Rightarrow>
                    (case commit e s2 of
                       (Inl x, s3) \<Rightarrow> (Inl x, s3)
                     | (Inr _, s3) \<Rightarrow>
                         (Inr (Created uid, 201),
                          publish_event e ''eventos_usuarios'' ''UserCreated'' uid user_data
                            None s3)))))"

text \<open>\<open>uid\<close> is the identifier \<^verbatim>\<open>str(uuid.uuid4())\<close> draws. An exception raised before
  the \<^verbatim>\<open>try\<close> is not caught by the handler: the framework answers 500.\<close>

definition create_user :: "env \<Rightarrow> string \<Rightarrow> json \<Rightarrow> state \<Rightarrow> response \<times> state" where
  "create_user e uid user_data s =
     (if \<not> db e \<or> \<not> db_session e then ((Error DepsNotInitialised, 503), s)
      else if \<not> py_truthy user_data then ((Error RequiredFields, 400), s)
      else case py_in ''email'' user_data of
        Inl x \<Rightarrow> ((Error (Unhandled x), 500), s)
      | Inr False \<Rightarrow> ((Error RequiredFields, 400), s)
      | Inr True \<Rightarrow>
          (case py_in ''name'' user_data of
             Inl x \<Rightarrow> ((Error (Unhandled x), 500), s)
           | Inr False \<Rightarrow> ((Error RequiredFields, 400), s)
           | Inr True \<Rightarrow>
               (case py_copy user_data of
                  Inl x \<Rightarrow> ((Error (Unhandled x), 500), s)
                | Inr copied \<Rightarrow>
                    (case py_pop copied ''location'' of
                       Inl x \<Rightarrow> ((Error (Unhandled x), 500), s)
                     | Inr (location_data, rest) \<Rightarrow>
                         (let firestore_data =
                                AList.update ''updated_at'' SERVER_TIMESTAMP
                                  (AList.update ''created_at'' SERVER_TIMESTAMP (to_fields rest))
                          in case create_user_try e uid user_data location_data firestore_data s of
                               (Inr resp, s1) \<Rightarrow> (resp, s1)
                             | (Inl x, s1) \<Rightarrow> on_exception CreateError x s1)))))"

subsection \<open>get\_user\<close>

definition call_to_shape :: "env \<Rightarrow> (string \<Rightarrow> point) \<Rightarrow> string \<Rightarrow> state \<Rightarrow> (exn + point) \<times> state" where
  "call_to_shape e f wkt s =
     (if raises e (ToShape wkt) then (Inl StoreError, record_call (ToShape wkt) s)
      else (Inr (f wkt), record_call (ToShape wkt) s))"

text \<open>The body of the \<^verbatim>\<open>try\<close> of \<^verbatim>\<open>get_user\<close>.\<close>

definition get_user_try :: "env \<Rightarrow> string \<Rightarrow> state \<Rightarrow> (exn + response) \<times> state" where
  "get_user_try e uid s =
     (case doc_get e uid s of
        (Inl x, s1) \<Rightarrow> (Inl x, s1)
      | (Inr None, s1) \<Rightarrow> (Inr (Error NotFound, 404), s1)
      | (Inr (Some d), s1) \<Rightarrow>
          (let user_data = AList.update ''id'' (Val (JStr uid)) d
           in case query_first e uid s1 of
                (Inl x, s2) \<Rightarrow> (Inl x, s2)
              | (Inr None, s2) \<Rightarrow> (Inr (User user_data, 200), s2)
              | (Inr (Some location_record), s2) \<Rightarrow>
                  (case to_shape e of
                     None \<Rightarrow> (Inr (User user_data, 200), s2)
                   | Some f \<Rightarrow>
                       (case call_to_shape e f (location location_record) s2 of
                          (Inl x, s3) \<Rightarrow> (Inl x, s3)
                        | (Inr p, s3) \<Rightarrow>
                            (Inr (User (AList.update ''location''
                                          (Val (JObj [(''latitude'', point_y p),
                                                      (''longitude'', point_x p)]))
                                          user_data), 200),
                             s3)))))"

text \<open>The \<^verbatim>\<open>except\<close> clause of \<^verbatim>\<open>get_user\<close> answers 500 and does not roll back.\<close>

definition get_user :: "env \<Rightarrow> string \<Rightarrow> state \<Rightarrow> response \<times> state" where
  "get_user e uid s =
     (if \<not> db e \<or> \<not> db_session e then ((Error DepsNotInitialised, 503), s)
      else case get_user_try e uid s of
             (Inr resp, s1) \<Rightarrow> (resp, s1)
           | (Inl x, s1) \<Rightarrow> ((Error FetchError, 500), s1))"

subsection \<open>update\_user\<close>

text \<open>
  \<^verbatim>\<open>
  location_record = db_session.query(UserLocation).filter_by(user_id=user_id).first()
  if location_record:
      location_record.location = wkt_point
  else:
      new_location = UserLocation(user_id=user_id, location=wkt_point)
      db_session.add(new_location)
  \<close>
\<close>

definition upsert_location :: "env \<Rightarrow> string \<Rightarrow> string \<Rightarrow> state \<Rightarrow> (exn + unit) \<times> state" where
  "upsert_location e uid wkt s =
     (case query_first e uid s of
        (Inl x, s1) \<Rightarrow> (Inl x, s1)
      | (Inr (Some location_record), s1) \<Rightarrow>
          (Inr (), s1\<lparr>session := assign_location uid wkt (session s1)\<rparr>)
      | (Inr None, s1) \<Rightarrow> session_add e (UserLocation uid wkt) s1)"

text \<open>The body of the \<^verbatim>\<open>try\<close> of \<^verbatim>\<open>update_user\<close>. The 404 is an ordinary return:
  nothing is rolled back on it.\<close>

definition update_user_try :: "env \<Rightarrow> string \<Rightarrow> json \<Rightarrow> state \<Rightarrow> (exn + response) \<times> state" where
  "update_user_try e uid update_data s =
     (case doc_get e uid s of
        (Inl x, s1) \<Rightarrow> (Inl x, s1)
      | (Inr None, s1) \<Rightarrow> (Inr (Error NotFound, 404), s1)
      | (Inr (Some d), s1) \<Rightarrow>
          (case py_copy update_data of
             Inl x \<Rightarrow> (Inl x, s1)
           | Inr copied \<Rightarrow>
               (case py_pop copied ''location'' of
                  Inl x \<Rightarrow> (Inl x, s1)
                | Inr (location_data, rest) \<Rightarrow>
                    (let firestore_data =
                           AList.update ''updated_at'' SERVER_TIMESTAMP (to_fields rest)
                     in case location_wkt e location_data of
                          Inl x \<Rightarrow> (Inl x, s1)
                        | Inr w \<Rightarrow>
                            (case (case w of
                                     None \<Rightarrow> (Inr (), s1)
                                   | Some wkt \<Rightarrow> upsert_location e uid wkt s1) of
                               (Inl x, s2) \<Rightarrow> (Inl x, s2)
                             | (Inr _, s2) \<Rightarrow>
                                 (case (if firestore_data \<noteq> []
                                        then doc_update e uid firestore_data s2
                                        else (Inr (), s2)) of
                                    (Inl x, s3) \<Rightarrow> (Inl x, s3)
                                  | (Inr _, s3) \<Rightarrow>
                                      (case commit e s3 of
                                         (Inl x, s4) \<Rightarrow> (Inl x, s4)
                                       | (Inr _, s4) \<Rightarrow>
                                           (Inr (Updated uid, 200),
                                            publish_event e ''eventos_usuarios'' ''UserUpdated''
                                              uid update_data None s4))))))))"

definition update_user :: "env \<Rightarrow> string \<Rightarrow> json \<Rightarrow> state \<Rightarrow> response \<times> state" where
  "update_user e uid update_data s =
     (if \<not> db e \<or> \<not> db_session e then ((Error DepsNotInitialised, 503), s)
      else if \<not> py_truthy update_data then ((Error UpdateDataRequired, 400), s)
      else case update_user_try e uid update_data s of
             (Inr resp, s1) \<Rightarrow> (resp, s1)
           | (Inl x, s1) \<Rightarrow> on_exception UpdateError x s1)"

subsection \<open>delete\_user\<close>

text \<open>The body of the \<^verbatim>\<open>try\<close> of \<^verbatim>\<open>delete_user\<close>.\<close>

definition delete_user_try :: "env \<Rightarrow> string \<Rightarrow> state \<Rightarrow> (exn + response) \<times> state" where
  "delete_user_try e uid s =
     (case doc_get e uid s of
        (Inl x, s1) \<Rightarrow> (Inl x, s1)
      | (Inr None, s1) \<Rightarrow> (Inr (Error NotFound, 404), s1)
      | (Inr (Some d), s1) \<Rightarrow>
          (case query_first e uid s1 of
             (Inl x, s2) \<Rightarrow> (Inl x, s2)
           | (Inr found, s2) \<Rightarrow>
               (case (case found of
                        None \<Rightarrow> (Inr (), s2)
                      | Some location_record \<Rightarrow> session_delete e location_record s2) of
                  (Inl x, s3) \<Rightarrow> (Inl x, s3)
                | (Inr _, s3) \<Rightarrow>
                    (case doc_delete e uid s3 of
                       (Inl x, s4) \<Rightarrow> (Inl x, s4)
                     | (Inr _, s4) \<Rightarrow>
                         (case commit e s4 of
                            (Inl x, s5) \<Rightarrow> (Inl x, s5)
                          | (Inr _, s5) \<Rightarrow>
                              (Inr (NoContent, 204),
                               publish_event e ''eventos_usuarios'' ''UserDeleted'' uid
                                 (JObj [(''user_id'', JStr uid)]) None s5))))))"

definition delete_user :: "env \<Rightarrow> string \<Rightarrow> state \<Rightarrow> response \<times> state" where
  "delete_user e uid s =
     (if \<not> db e \<or> \<not> db_session e then ((Error DepsNotInitialised, 503), s)
      else case delete_user_try e uid s of
             (Inr resp, s1) \<Rightarrow> (resp, s1)
           | (Inl x, s1) \<Rightarrow> on_exception DeleteError x s1)"

section \<open>Observations on a run\<close>

text \<open>The calls a run added to the trace.\<close>

definition new_calls :: "state \<Rightarrow> state \<Rightarrow> call list" where
  "new_calls s s' = drop (length (calls s)) (calls s')"

fun is_publish :: "call \<Rightarrow> bool" where
  "is_publish (PublishEvent topic etype uid payload) = True"
| "is_publish c = False"

text \<open>The rows of a user in a table.\<close>

definition rows_of :: "string \<Rightarrow> user_location list \<Rightarrow> user_location list" where
  "rows_of uid rs = filter (\<lambda>r. user_id r = uid) rs"

text \<open>The document \<^verbatim>\<open>create_user\<close> writes for a payload without its \<open>location\<close>.\<close>

abbreviation created_fields :: "(string \<times> json) list \<Rightarrow> document" where
  "created_fields rest \<equiv>
     AList.update ''updated_at'' SERVER_TIMESTAMP
       (AList.update ''created_at'' SERVER_TIMESTAMP (to_fields rest))"

text \<open>The document \<^verbatim>\<open>update_user\<close> sends for a payload without its \<open>location\<close>.\<close>

abbreviation updated_fields :: "(string \<times> json) list \<Rightarrow> document" where
  "updated_fields kvs \<equiv>
     AList.update ''updated_at'' SERVER_TIMESTAMP (to_fields (AList.delete ''location'' kvs))"

text \<open>The call that stages the row of a location, if the payload has one.\<close>

definition staged_calls :: "env \<Rightarrow> string \<Rightarrow> json \<Rightarrow> call list" where
  "staged_calls e uid loc =
     (case location_wkt e loc of
        Inr (Some wkt) \<Rightarrow> [Add (UserLocation uid wkt)]
      | _ \<Rightarrow> [])"

text \<open>The discipline of the session between two requests: nothing is pending, and the
  committed table has one row per \<open>user_id\<close> at most (the primary key).\<close>

definition consistent :: "state \<Rightarrow> bool" where
  "consistent s = (session s = user_locations s \<and> distinct (map user_id (user_locations s)))"

section \<open>A sample environment\<close>

text \<open>
  The sample follows the fixture of the test suite: one stored user,
  \<^verbatim>\<open>test_user_123\<close>, with the row \<^verbatim>\<open>POINT(-46.6 -23.5)\<close>, and a \<^verbatim>\<open>to_shape\<close> that
  returns the point \<^verbatim>\<open>x=-46.6, y=-23.5\<close> whatever it is given.

  \<open>sample_format\<close> is Python's \<^verbatim>\<open>str\<close> on the values the sample runs format:
  \<^verbatim>\<open>None\<close>, bools, ints, strs and floats with an integral value below \<open>10^16\<close>
  (\<^verbatim>\<open>str(-10.0) == '-10.0'\<close>). Other floats and containers are outside the sample and
  give the empty string.
\<close>

definition digit_char :: "nat \<Rightarrow> char" where
  "digit_char n = ''0123456789'' ! (n mod 10)"

function str_nat :: "nat \<Rightarrow> string" where
  "str_nat n = (if n < 10 then [digit_char n] else str_nat (n div 10) @ [digit_char n])"
  by pat_completeness auto
termination
  by (relation "measure (\<lambda>n. n)") auto

declare str_nat.simps [simp del]

definition str_int :: "int \<Rightarrow> string" where
  "str_int i = (if i < 0 then CHR ''-'' # str_nat (nat (- i)) else str_nat (nat i))"

fun sample_format :: "json \<Rightarrow> string" where
  "sample_format JNull = ''None''"
| "sample_format (JBool b) = (if b then ''True'' else ''False'')"
| "sample_format (JInt n) = str_int n"
| "sample_format (JStr t) = t"
| "sample_format (JFloat q) = (if of_int \<lfloor>q\<rfloor> = q then str_int \<lfloor>q\<rfloor> @ ''.0'' else [])"
| "sample_format (JArr xs) = []"
| "sample_format (JObj kvs) = []"

definition sample_env :: env where
  "sample_env =
     \<lparr>db = True, db_session = True, producer = True,
      to_shape = Some (\<lambda>w. Point (JFloat (- 46.6)) (JFloat (- 23.5))),
      raises = (\<lambda>c. False), py_format = sample_format,
      now = ''2024-01-01T00:00:00+00:00''\<rparr>"

definition sample_state :: state where
  "sample_state =
     \<lparr>users = [''test_user_123'' \<mapsto>
                 [(''email'', Val (JStr ''test@example.com'')),
                  (''name'', Val (JStr ''Test User'')),
                  (''created_at'', SERVER_TIMESTAMP),
                  (''updated_at'', SERVER_TIMESTAMP)]],
      user_locations = [UserLocation ''test_user_123'' ''POINT(-46.6 -23.5)''],
      session = [UserLocation ''test_user_123'' ''POINT(-46.6 -23.5)''],
      calls = []\<rparr>"

text \<open>The document store refuses every write.\<close>

definition failing_upsert_env :: env where
  "failing_upsert_env =
     sample_env\<lparr>raises := (\<lambda>c. case c of DocSet u d \<Rightarrow> True | DocUpdate u d \<Rightarrow> True
                                  | DocDelete u \<Rightarrow> True | _ \<Rightarrow> False)\<rparr>"

text \<open>A create payload with a location.\<close>

definition sample_payload :: json where
  "sample_payload =
     JObj [(''email'', JStr ''new@example.com''), (''name'', JStr ''New User''),
           (''location'', JObj [(''latitude'', JFloat (- 10)), (''longitude'', JFloat (- 20))])]"

text \<open>A create payload without a location, as in the test suite.\<close>

definition plain_payload :: json where
  "plain_payload =
     JObj [(''email'', JStr ''no-loc@example.com''), (''name'', JStr ''No Location User'')]"

text \<open>The update payload of the test suite: a location and nothing else.\<close>

definition sample_update :: json where
  "sample_update =
     JObj [(''location'', JObj [(''latitude'', JFloat (- 10)), (''longitude'', JFloat (- 20))])]"

lemmas store_defs =
  record_call_def doc_get_def doc_set_def doc_update_def doc_delete_def query_first_def
  session_add_def session_delete_def commit_def rollback_def publish_event_def
  call_to_shape_def merge_fields_def to_fields_def

lemmas handler_defs =
  create_user_def create_user_try_def get_user_def get_user_try_def update_user_def
  update_user_try_def upsert_location_def delete_user_def delete_user_try_def
  on_exception_def location_wkt_def wkt_point_def

lemmas prim_defs =
  doc_get_def doc_set_def doc_update_def doc_delete_def query_first_def session_add_def
  session_delete_def commit_def call_to_shape_def

lemmas sample_defs =
  sample_env_def sample_state_def new_calls_def rows_of_def str_int_def str_nat.simps
  digit_char_def Let_def sample_payload_def failing_upsert_env_def sample_update_def

section \<open>The effect of the calls on the state\<close>

lemma record_call_sel [simp]:
  "calls (record_call c s) = calls s @ [c]"
  "users (record_call c s) = users s"
  "user_locations (record_call c s) = user_locations s"
  "session (record_call c s) = session s"
  by (simp_all add: record_call_def)

lemma record_call_upd [simp]:
  "record_call c (s\<lparr>users := u\<rparr>) = (record_call c s)\<lparr>users := u\<rparr>"
  "record_call c (s\<lparr>session := t\<rparr>) = (record_call c s)\<lparr>session := t\<rparr>"
  "record_call c (s\<lparr>user_locations := t\<rparr>) = (record_call c s)\<lparr>user_locations := t\<rparr>"
  by (simp_all add: record_call_def)

lemma publish_event_sel [simp]:
  "calls (publish_event e topic etype uid payload chg s) =
     calls s @ PublishEvent topic etype uid payload #
       (if producer e
        then [Produce topic uid (Event etype (now e) uid payload ''servico-usuarios''
                (case chg of None \<Rightarrow> None | Some c \<Rightarrow> if py_truthy c then Some c else None))]
        else [])"
  "users (publish_event e topic etype uid payload chg s) = users s"
  "user_locations (publish_event e topic etype uid payload chg s) = user_locations s"
  "session (publish_event e topic etype uid payload chg s) = session s"
  by (simp_all add: publish_event_def Let_def)

lemma rollback_sel [simp]:
  "calls (rollback s) = calls s @ [Rollback]"
  "users (rollback s) = users s"
  "user_locations (rollback s) = user_locations s"
  "session (rollback s) = user_locations s"
  by (simp_all add: rollback_def)

lemma new_calls_append: "calls s' = calls s @ xs \<Longrightarrow> new_calls s s' = xs"
  by (simp add: new_calls_def)

lemma new_calls_same [simp]: "new_calls s s = []"
  by (simp add: new_calls_def)

lemma create_user_try_publishes:
  assumes "create_user_try e uid ud loc fd s = (r, s1)"
  shows "\<exists>xs. calls s1 = calls s @ xs \<and>
           (case r of Inl x \<Rightarrow> filter is_publish xs = []
            | Inr resp \<Rightarrow> resp = (Created uid, 201) \<and>
                filter is_publish xs = [PublishEvent ''eventos_usuarios'' ''UserCreated'' uid ud])"
  using assms unfolding create_user_try_def prim_defs
  by (auto split: sum.splits option.splits prod.splits if_splits)

lemma update_user_try_publishes:
  assumes "update_user_try e uid ud s = (r, s1)"
  shows "\<exists>xs. calls s1 = calls s @ xs \<and>
           (case r of Inl x \<Rightarrow> filter is_publish xs = []
            | Inr resp \<Rightarrow>
                (resp = (Error NotFound, 404) \<and> filter is_publish xs = []) \<or>
                (resp = (Updated uid, 200) \<and>
                 filter is_publish xs = [PublishEvent ''eventos_usuarios'' ''UserUpdated'' uid ud]))"
  using assms unfolding update_user_try_def upsert_location_def prim_defs Let_def
  by (auto split: sum.splits option.splits prod.splits if_splits)

lemma delete_user_try_publishes:
  assumes "delete_user_try e uid s = (r, s1)"
  shows "\<exists>xs. calls s1 = calls s @ xs \<and>
           (case r of Inl x \<Rightarrow> filter is_publish xs = []
            | Inr resp \<Rightarrow>
                (resp = (Error NotFound, 404) \<and> filter is_publish xs = []) \<or>
                (resp = (NoContent, 204) \<and>
                 filter is_publish xs =
                   [PublishEvent ''eventos_usuarios'' ''UserDeleted'' uid
                      (JObj [(''user_id'', JStr uid)])]))"
  using assms unfolding delete_user_try_def prim_defs
  by (auto split: sum.splits option.splits prod.splits if_splits)

lemma create_user_publishes:
  "filter is_publish (new_calls s (snd (create_user e uid user_data s))) =
     (if snd (fst (create_user e uid user_data s)) = 201
      then [PublishEvent ''eventos_usuarios'' ''UserCreated'' uid user_data] else [])"
proof -
  have body: "filter is_publish (new_calls s (snd (case create_user_try e uid user_data loc fd s of
                 (Inr resp, s1) \<Rightarrow> (resp, s1)
               | (Inl x, s1) \<Rightarrow> on_exception CreateError x s1))) =
     (if snd (fst (case create_user_try e uid user_data loc fd s of
                 (Inr resp, s1) \<Rightarrow> (resp, s1)
               | (Inl x, s1) \<Rightarrow> on_exception CreateError x s1)) = 201
      then [PublishEvent ''eventos_usuarios'' ''UserCreated'' uid user_data] else [])" for loc fd
  proof -
    obtain r s1 where run: "create_user_try e uid user_data loc fd s = (r, s1)"
      by (cases "create_user_try e uid user_data loc fd s")
    from create_user_try_publishes [OF run] obtain xs where
      xs: "calls s1 = calls s @ xs"
        "case r of Inl x \<Rightarrow> filter is_publish xs = []
         | Inr resp \<Rightarrow> resp = (Created uid, 201) \<and>
             filter is_publish xs = [PublishEvent ''eventos_usuarios'' ''UserCreated'' uid user_data]"
      by blast
    show ?thesis
    proof (cases r)
      case (Inl x)
      with xs have "new_calls s (rollback s1) = xs @ [Rollback]"
        by (simp add: new_calls_def)
      with Inl xs run show ?thesis
        by (simp add: on_exception_def)
    next
      case (Inr resp)
      with xs run show ?thesis
        by (simp add: new_calls_def)
    qed
  qed
  show ?thesis
    unfolding create_user_def Let_def
    by (simp add: body split: sum.splits bool.splits prod.splits)
qed


lemma update_user_publishes:
  "filter is_publish (new_calls s (snd (update_user e uid update_data s))) =
     (if snd (fst (update_user e uid update_data s)) = 200
      then [PublishEvent ''eventos_usuarios'' ''UserUpdated'' uid update_data] else [])"
proof -
  obtain r s1 where run: "update_user_try e uid update_data s = (r, s1)"
    by (cases "update_user_try e uid update_data s")
  from update_user_try_publishes [OF run] obtain xs where
    xs: "calls s1 = calls s @ xs"
      "case r of Inl x \<Rightarrow> filter is_publish xs = []
       | Inr resp \<Rightarrow>
           (resp = (Error NotFound, 404) \<and> filter is_publish xs = []) \<or>
           (resp = (Updated uid, 200) \<and>
            filter is_publish xs = [PublishEvent ''eventos_usuarios'' ''UserUpdated'' uid update_data])"
    by blast
  show ?thesis
  proof (cases r)
    case (Inl x)
    with xs run show ?thesis
      by (simp add: update_user_def on_exception_def new_calls_def)
  next
    case (Inr resp)
    with xs run show ?thesis
      by (auto simp: update_user_def new_calls_def)
  qed
qed

lemma delete_user_publishes:
  "filter is_publish (new_calls s (snd (delete_user e uid s))) =
     (if snd (fst (delete_user e uid s)) = 204
      then [PublishEvent ''eventos_usuarios'' ''UserDeleted'' uid
              (JObj [(''user_id'', JStr uid)])] else [])"
proof -
  obtain r s1 where run: "delete_user_try e uid s = (r, s1)"
    by (cases "delete_user_try e uid s")
  from delete_user_try_publishes [OF run] obtain xs where
    xs: "calls s1 = calls s @ xs"
      "case r of Inl x \<Rightarrow> filter is_publish xs = []
       | Inr resp \<Rightarrow>
           (resp = (Error NotFound, 404) \<and> filter is_publish xs = []) \<or>
           (resp = (NoContent, 204) \<and>
            filter is_publish xs =
              [PublishEvent ''eventos_usuarios'' ''UserDeleted'' uid
                 (JObj [(''user_id'', JStr uid)])])"
    by blast
  show ?thesis
  proof (cases r)
    case (Inl x)
    with xs run show ?thesis
      by (simp add: delete_user_def on_exception_def new_calls_def)
  next
    case (Inr resp)
    with xs run show ?thesis
      by (auto simp: delete_user_def new_calls_def)
  qed
qed

subsection \<open>The runs of create\_user\<close>

lemma create_user_try_trace:
  assumes "create_user_try e uid ud loc fd s = (r, s1)"
  shows "(calls s1 = calls s @ staged_calls e uid loc \<and> isl r
            \<and> user_locations s1 = user_locations s)
       \<or> (calls s1 = calls s @ staged_calls e uid loc @ [DocSet uid fd]
            \<and> raises e (DocSet uid fd) \<and> r = Inl StoreError
            \<and> user_locations s1 = user_locations s)
       \<or> (calls s1 = calls s @ staged_calls e uid loc @ [DocSet uid fd, Commit]
            \<and> \<not> raises e (DocSet uid fd) \<and> r = Inl SQLAlchemyError
            \<and> user_locations s1 = user_locations s)
       \<or> (calls s1 = calls s @ staged_calls e uid loc @ DocSet uid fd # Commit #
              new_calls s (publish_event e ''eventos_usuarios'' ''UserCreated'' uid ud None s)
            \<and> \<not> raises e (DocSet uid fd) \<and> r = Inr (Created uid, 201))"
  using assms unfolding create_user_try_def prim_defs staged_calls_def
  by (auto simp: new_calls_def split: sum.splits option.splits prod.splits if_splits)

lemma create_user_reach:
  "create_user e uid ud s = ((Error DepsNotInitialised, 503), s) \<and> \<not> (db e \<and> db_session e)
   \<or> create_user e uid ud s = ((Error RequiredFields, 400), s)
   \<or> (\<exists>x. create_user e uid ud s = ((Error (Unhandled x), 500), s))
   \<or> (\<exists>copied loc rest. db e \<and> db_session e \<and> py_truthy ud
         \<and> py_in ''email'' ud = Inr True \<and> py_in ''name'' ud = Inr True
         \<and> py_copy ud = Inr copied \<and> py_pop copied ''location'' = Inr (loc, rest)
         \<and> create_user e uid ud s =
             (case create_user_try e uid ud loc (created_fields rest) s of
                (Inr resp, s1) \<Rightarrow> (resp, s1)
              | (Inl x, s1) \<Rightarrow> on_exception CreateError x s1))"
  unfolding create_user_def Let_def
  by (auto split: sum.splits bool.splits prod.splits)


lemma staged_calls_cases:
  "staged_calls e uid loc = [] \<or> (\<exists>wkt. staged_calls e uid loc = [Add (UserLocation uid wkt)])"
  by (auto simp: staged_calls_def split: sum.splits option.splits)

lemma staged_calls_notin [simp]:
  "Commit \<notin> set (staged_calls e uid loc)"
  "DocSet u d \<notin> set (staged_calls e uid loc)"
  using staged_calls_cases [of e uid loc] by auto

lemma publish_calls_notin [simp]:
  "Commit \<notin> set (new_calls s (publish_event e topic etype uid payload chg s))"
  "DocSet u d \<notin> set (new_calls s (publish_event e topic etype uid payload chg s))"
  by (simp_all add: new_calls_def)

lemma create_user_outcome:
  assumes run: "create_user e uid ud s = (resp, s')"
  shows "s' = s
    \<or> (\<exists>stage fd post. Commit \<notin> set stage \<and> (\<forall>d. DocSet uid d \<notin> set stage)
          \<and> (\<forall>d. DocSet uid d \<notin> set post) \<and> Commit \<notin> set post
          \<and> ((new_calls s s' = stage @ post \<and> post = [Rollback])
              \<or> (new_calls s s' = stage @ DocSet uid fd # post \<and> post = [Rollback]
                   \<and> raises e (DocSet uid fd) \<and> resp = (Error CreateError, 500))
              \<or> (new_calls s s' = stage @ DocSet uid fd # Commit # post
                   \<and> \<not> raises e (DocSet uid fd)))
          \<and> (last (calls s') = Rollback \<and> snd resp = 500
                 \<and> user_locations s' = user_locations s \<and> session s' = user_locations s
               \<or> resp = (Created uid, 201)))"
proof -
  from create_user_reach [of e uid ud s] run
  consider (same) "s' = s"
    | (region) loc rest where
        "(resp, s') = (case create_user_try e uid ud loc (created_fields rest) s of
                         (Inr resp, s1) \<Rightarrow> (resp, s1)
                       | (Inl x, s1) \<Rightarrow> on_exception CreateError x s1)"
    by auto
  then show ?thesis
  proof cases
    case same
    then show ?thesis by simp
  next
    case region
    obtain r s1 where body: "create_user_try e uid ud loc (created_fields rest) s = (r, s1)"
      by (cases "create_user_try e uid ud loc (created_fields rest) s")
    let ?stage = "staged_calls e uid loc"
    let ?fd = "created_fields rest"
    let ?pub = "new_calls s (publish_event e ''eventos_usuarios'' ''UserCreated'' uid ud None s)"
    from create_user_try_trace [OF body]
    consider (a) "calls s1 = calls s @ ?stage" "isl r" "user_locations s1 = user_locations s"
      | (b) "calls s1 = calls s @ ?stage @ [DocSet uid ?fd]" "raises e (DocSet uid ?fd)"
            "r = Inl StoreError" "user_locations s1 = user_locations s"
      | (c) "calls s1 = calls s @ ?stage @ [DocSet uid ?fd, Commit]"
            "\<not> raises e (DocSet uid ?fd)" "r = Inl SQLAlchemyError"
            "user_locations s1 = user_locations s"
      | (d) "calls s1 = calls s @ ?stage @ DocSet uid ?fd # Commit # ?pub"
            "\<not> raises e (DocSet uid ?fd)" "r = Inr (Created uid, 201)"
      by blast
    then show ?thesis
    proof cases
      case a
      then obtain x where "r = Inl x" by (cases r) auto
      with a region body have
        "new_calls s s' = ?stage @ [Rollback]" "last (calls s') = Rollback" "snd resp = 500"
        "user_locations s' = user_locations s" "session s' = user_locations s"
        by (auto simp: on_exception_def new_calls_def)
      then show ?thesis
        by (intro disjI2 exI [of _ ?stage] exI [of _ ?fd] exI [of _ "[Rollback]"]) simp
    next
      case b
      with region body have
        "new_calls s s' = ?stage @ DocSet uid ?fd # [Rollback]" "last (calls s') = Rollback"
        "resp = (Error CreateError, 500)"
        "user_locations s' = user_locations s" "session s' = user_locations s"
        by (auto simp: on_exception_def new_calls_def)
      with b show ?thesis
        by (intro disjI2 exI [of _ ?stage] exI [of _ ?fd] exI [of _ "[Rollback]"]) simp
    next
      case c
      with region body have
        "new_calls s s' = ?stage @ DocSet uid ?fd # Commit # [Rollback]"
        "last (calls s') = Rollback" "snd resp = 500"
        "user_locations s' = user_locations s" "session s' = user_locations s"
        by (auto simp: on_exception_def new_calls_def)
      with c show ?thesis
        by (intro disjI2 exI [of _ ?stage] exI [of _ ?fd] exI [of _ "[Rollback]"]) simp
    next
      case d
      with region body have
        "new_calls s s' = ?stage @ DocSet uid ?fd # Commit # ?pub" "resp = (Created uid, 201)"
        by (auto simp: new_calls_def)
      with d show ?thesis
        by (intro disjI2 exI [of _ ?stage] exI [of _ ?fd] exI [of _ ?pub]) simp
    qed
  qed
qed


lemma create_user_try_raise:
  assumes "create_user_try e uid ud loc fd s = (Inl x, s1)"
  shows "user_locations s1 = user_locations s"
  using create_user_try_trace [OF assms] by auto

lemma create_user_object:
  assumes "db e" and "db_session e"
    and "''email'' \<in> set (map fst kvs)" and "''name'' \<in> set (map fst kvs)"
  shows "create_user e uid (JObj kvs) s =
           (case create_user_try e uid (JObj kvs)
                   (case map_of kvs ''location'' of None \<Rightarrow> JNull | Some v \<Rightarrow> v)
                   (created_fields (AList.delete ''location'' kvs)) s of
              (Inr resp, s1) \<Rightarrow> (resp, s1)
            | (Inl x, s1) \<Rightarrow> on_exception CreateError x s1)"
proof -
  from assms(3) have "kvs \<noteq> []" by auto
  with assms show ?thesis
    by (simp add: create_user_def)
qed

lemma create_user_try_status:
  "snd (fst (case create_user_try e uid ud loc fd s of
               (Inr resp, s1) \<Rightarrow> (resp, s1)
             | (Inl x, s1) \<Rightarrow> on_exception CreateError x s1)) \<in> {201, 500}"
proof -
  obtain r s1 where body: "create_user_try e uid ud loc fd s = (r, s1)"
    by (cases "create_user_try e uid ud loc fd s")
  from create_user_try_trace [OF body] body show ?thesis
    by (cases r) (auto simp: on_exception_def)
qed

subsection \<open>Rows of a user\<close>

lemma find_rows_of: "(find (\<lambda>r. user_id r = uid) rs = None) = (rows_of uid rs = [])"
  by (induction rs) (auto simp: rows_of_def)

lemma find_Some_row: "find (\<lambda>r. user_id r = uid) rs = Some r \<Longrightarrow> r \<in> set rs \<and> user_id r = uid"
  by (induction rs) (auto split: if_splits)

lemma map_user_id_assign [simp]: "map user_id (assign_location uid wkt rs) = map user_id rs"
  by (induction rs) auto

lemma rows_of_notin: "uid \<notin> user_id ` set rs \<Longrightarrow> rows_of uid rs = []"
  by (induction rs) (auto simp: rows_of_def)

lemma rows_of_assign:
  "distinct (map user_id rs) \<Longrightarrow> rows_of uid rs \<noteq> [] \<Longrightarrow>
     rows_of uid (assign_location uid wkt rs) = [UserLocation uid wkt]"
proof (induction rs)
  case Nil
  then show ?case by (simp add: rows_of_def)
next
  case (Cons r rs)
  show ?case
  proof (cases "user_id r = uid")
    case True
    with Cons.prems have "uid \<notin> user_id ` set rs" by auto
    then have "rows_of uid rs = []" by (rule rows_of_notin)
    with True show ?thesis by (simp add: rows_of_def)
  next
    case False
    with Cons show ?thesis by (simp add: rows_of_def)
  qed
qed

lemma rows_of_add:
  "rows_of uid rs = [] \<Longrightarrow> rows_of uid (rs @ [UserLocation uid wkt]) = [UserLocation uid wkt]"
  by (simp add: rows_of_def)

lemma rows_of_empty_notin: "rows_of uid rs = [] \<Longrightarrow> uid \<notin> user_id ` set rs"
  by (auto simp: rows_of_def filter_empty_conv)

lemma location_wkt_object:
  assumes "map_of loc ''latitude'' = Some lat" and "map_of loc ''longitude'' = Some lon"
  shows "location_wkt e (JObj loc) = Inr (Some (wkt_point e lon lat))"
proof -
  from assms have "''latitude'' \<in> fst ` set loc" "''longitude'' \<in> fst ` set loc"
    by (auto dest!: map_of_SomeD intro: rev_image_eqI)
  moreover from this have "loc \<noteq> []" by auto
  ultimately show ?thesis using assms
    by (simp add: location_wkt_def)
qed

lemma update_fields_nonempty [simp]: "AList.update k v al \<noteq> []"
  by (cases al) auto

lemma filter_other_users:
  "uid \<notin> user_id ` set rs \<Longrightarrow> filter (\<lambda>r. user_id r \<noteq> uid) rs = rs"
  by (induction rs) auto

lemma remove1_row:
  "distinct (map user_id rs) \<Longrightarrow> find (\<lambda>r. user_id r = uid) rs = Some r \<Longrightarrow>
     remove1 r rs = filter (\<lambda>r. user_id r \<noteq> uid) rs"
proof (induction rs)
  case Nil
  then show ?case by simp
next
  case (Cons a rs)
  show ?case
  proof (cases "user_id a = uid")
    case True
    with Cons.prems have "r = a" "uid \<notin> user_id ` set rs" by auto
    with True show ?thesis by (simp add: filter_other_users)
  next
    case False
    with Cons.prems have "find (\<lambda>r. user_id r = uid) rs = Some r" "distinct (map user_id rs)"
      by auto
    with Cons.IH have "remove1 r rs = filter (\<lambda>r. user_id r \<noteq> uid) rs" by simp
    moreover from \<open>find (\<lambda>r. user_id r = uid) rs = Some r\<close> have "user_id r = uid"
      by (blast dest: find_Some_row)
    ultimately show ?thesis using False by auto
  qed
qed

lemma rows_of_filter_other [simp]: "rows_of uid (filter (\<lambda>r. user_id r \<noteq> uid) rs) = []"
  by (induction rs) (auto simp: rows_of_def)


subsection \<open>The runs of delete\_user without a fault\<close>

lemma delete_user_absent:
  assumes "db e" and "db_session e" and "\<not> raises e (DocGet uid)" and "users s uid = None"
  shows "fst (delete_user e uid s) = (Error NotFound, 404)"
  using assms by (simp add: delete_user_def delete_user_try_def doc_get_def)

lemma delete_user_no_row:
  assumes "db e" and "db_session e" and "\<And>c. \<not> raises e c"
    and "users s uid = Some d"
    and "session s = user_locations s"
    and "distinct (map user_id (user_locations s))"
    and "find (\<lambda>r. user_id r = uid) (user_locations s) = None"
  shows "fst (delete_user e uid s) = (NoContent, 204)
       \<and> users (snd (delete_user e uid s)) uid = None
       \<and> user_locations (snd (delete_user e uid s)) = user_locations s
       \<and> session (snd (delete_user e uid s)) = user_locations s
       \<and> (\<forall>r. Delete r \<notin> set (new_calls s (snd (delete_user e uid s))))"
  using assms
  by (simp add: delete_user_def delete_user_try_def prim_defs new_calls_def)

lemma delete_user_row:
  assumes "db e" and "db_session e" and "\<And>c. \<not> raises e c"
    and "users s uid = Some d"
    and "session s = user_locations s"
    and "distinct (map user_id (remove1 r (user_locations s)))"
    and "find (\<lambda>r. user_id r = uid) (user_locations s) = Some r"
  shows "fst (delete_user e uid s) = (NoContent, 204)
       \<and> users (snd (delete_user e uid s)) uid = None
       \<and> user_locations (snd (delete_user e uid s)) = remove1 r (user_locations s)
       \<and> session (snd (delete_user e uid s)) = remove1 r (user_locations s)"
  using assms
  by (simp add: delete_user_def delete_user_try_def prim_defs)

subsection \<open>Payloads without a location\<close>

lemma location_wkt_absent:
  assumes "case map_of kvs ''location'' of
             None \<Rightarrow> True
           | Some l \<Rightarrow> \<not> py_truthy l \<or>
               (\<exists>loc. l = JObj loc \<and>
                  (''latitude'' \<notin> set (map fst loc) \<or> ''longitude'' \<notin> set (map fst loc)))"
  shows "location_wkt e (case map_of kvs ''location'' of None \<Rightarrow> JNull | Some v \<Rightarrow> v) = Inr None"
  using assms by (auto simp: location_wkt_def split: option.splits bool.splits)

lemma keys_to_fields [simp]: "fst ` set (to_fields kvs) = fst ` set kvs"
  by (force simp: to_fields_def)

lemma location_not_stored:
  "''location'' \<notin> set (map fst (AList.update ''id'' v (created_fields (AList.delete ''location'' kvs))))"
  by (simp add: dom_update delete_notin_dom)

lemma create_user_no_location_run:
  assumes "db e" and "db_session e" and "\<And>c. \<not> raises e c"
    and "''email'' \<in> set (map fst kvs)" and "''name'' \<in> set (map fst kvs)"
    and "location_wkt e (case map_of kvs ''location'' of None \<Rightarrow> JNull | Some v \<Rightarrow> v) = Inr None"
    and "session s = user_locations s"
    and "distinct (map user_id (user_locations s))"
  shows "fst (create_user e uid (JObj kvs) s) = (Created uid, 201)
       \<and> user_locations (snd (create_user e uid (JObj kvs) s)) = user_locations s
       \<and> session (snd (create_user e uid (JObj kvs) s)) = user_locations s
       \<and> users (snd (create_user e uid (JObj kvs) s)) uid
           = Some (created_fields (AList.delete ''location'' kvs))
       \<and> (\<forall>r. Add r \<notin> set (new_calls s (snd (create_user e uid (JObj kvs) s))))"
  using assms
  by (simp add: create_user_object create_user_try_def prim_defs new_calls_def)

lemma get_user_no_row:
  assumes "db e" and "db_session e" and "\<And>c. \<not> raises e c"
    and "users s uid = Some d"
    and "find (\<lambda>r. user_id r = uid) (session s) = None"
  shows "fst (get_user e uid s) = (User (AList.update ''id'' (Val (JStr uid)) d), 200)"
  using assms
  by (simp add: get_user_def get_user_try_def prim_defs Let_def)

subsection \<open>The document update of update\_user\<close>

lemma location_wkt_object_returns: "\<exists>w. location_wkt e (JObj loc) = Inr w"
proof (cases "''latitude'' \<in> fst ` set loc")
  case lat: True
  show ?thesis
  proof (cases "''longitude'' \<in> fst ` set loc")
    case lon: True
    from lat have "map_of loc ''latitude'' \<noteq> None"
      by (simp add: map_of_eq_None_iff)
    moreover from lon have "map_of loc ''longitude'' \<noteq> None"
      by (simp add: map_of_eq_None_iff)
    ultimately obtain x y where
      "map_of loc ''latitude'' = Some x" "map_of loc ''longitude'' = Some y"
      by blast
    then show ?thesis
      by (simp add: location_wkt_object)
  next
    case False
    with lat show ?thesis
      by (simp add: location_wkt_def)
  qed
next
  case False
  then show ?thesis
    by (simp add: location_wkt_def)
qed

lemma location_wkt_returns:
  assumes "case map_of kvs ''location'' of
             None \<Rightarrow> True
           | Some l \<Rightarrow> \<not> py_truthy l \<or> (\<exists>loc. l = JObj loc)"
  shows "\<exists>w. location_wkt e (case map_of kvs ''location'' of None \<Rightarrow> JNull | Some v \<Rightarrow> v) = Inr w"
proof (cases "map_of kvs ''location''")
  case None
  then show ?thesis
    by (simp add: location_wkt_def)
next
  case (Some l)
  show ?thesis
  proof (cases "py_truthy l")
    case True
    with Some assms obtain loc where "l = JObj loc"
      by auto
    with Some show ?thesis
      by (simp add: location_wkt_object_returns)
  next
    case False
    with Some show ?thesis
      by (simp add: location_wkt_def)
  qed
qed

lemma update_user_issues_update:
  assumes "db e" and "db_session e"
    and "\<not> raises e (DocGet uid)" and "\<not> raises e (Query uid)" and "\<And>r. \<not> raises e (Add r)"
    and "kvs \<noteq> []" and "users s uid = Some d"
    and "location_wkt e (case map_of kvs ''location'' of None \<Rightarrow> JNull | Some v \<Rightarrow> v) = Inr w"
  shows "DocUpdate uid (updated_fields kvs) \<in> set (new_calls s (snd (update_user e uid (JObj kvs) s)))"
  using assms
  by (auto simp: update_user_def update_user_try_def upsert_location_def prim_defs
        on_exception_def new_calls_def Let_def
      split: option.splits)

subsection \<open>Payloads with a location\<close>

lemma find_appended_row:
  "rows_of uid rs = [] \<Longrightarrow>
     find (\<lambda>r. user_id r = uid) (rs @ [UserLocation uid wkt]) = Some (UserLocation uid wkt)"
  by (induction rs) (auto simp: rows_of_def split: if_splits)

lemma create_user_location_run:
  assumes "db e" and "db_session e" and "\<And>c. \<not> raises e c"
    and "''email'' \<in> set (map fst kvs)" and "''name'' \<in> set (map fst kvs)"
    and "location_wkt e (case map_of kvs ''location'' of None \<Rightarrow> JNull | Some v \<Rightarrow> v)
           = Inr (Some wkt)"
    and "session s = user_locations s"
    and "distinct (map user_id (user_locations s))"
    and "uid \<notin> user_id ` set (user_locations s)"
  shows "fst (create_user e uid (JObj kvs) s) = (Created uid, 201)
       \<and> user_locations (snd (create_user e uid (JObj kvs) s))
           = user_locations s @ [UserLocation uid wkt]
       \<and> session (snd (create_user e uid (JObj kvs) s))
           = user_locations s @ [UserLocation uid wkt]
       \<and> users (snd (create_user e uid (JObj kvs) s)) uid
           = Some (created_fields (AList.delete ''location'' kvs))"
  using assms
  by (simp add: create_user_object create_user_try_def prim_defs)

lemma get_user_row:
  assumes "db e" and "db_session e" and "\<And>c. \<not> raises e c"
    and "users s uid = Some d"
    and "find (\<lambda>r. user_id r = uid) (session s) = Some (UserLocation uid wkt)"
    and "to_shape e = Some f"
  shows "fst (get_user e uid s)
           = (User (AList.update ''location''
                      (Val (JObj [(''latitude'', point_y (f wkt)), (''longitude'', point_x (f wkt))]))
                      (AList.update ''id'' (Val (JStr uid)) d)), 200)"
  using assms
  by (simp add: get_user_def get_user_try_def prim_defs Let_def)

subsection \<open>The session after a handler\<close>

lemma create_user_try_consistent:
  assumes "consistent s" and "create_user_try e uid ud loc fd s = (r, s1)"
  shows "distinct (map user_id (user_locations s1)) \<and> (isl r \<or> session s1 = user_locations s1)"
  using assms unfolding create_user_try_def prim_defs consistent_def
  by (auto split: sum.splits option.splits prod.splits if_splits)

lemma update_user_try_consistent:
  assumes "consistent s" and "update_user_try e uid ud s = (r, s1)"
  shows "distinct (map user_id (user_locations s1)) \<and> (isl r \<or> session s1 = user_locations s1)"
  using assms unfolding update_user_try_def upsert_location_def prim_defs consistent_def Let_def
  by (auto split: sum.splits option.splits prod.splits if_splits)

lemma delete_user_try_consistent:
  assumes "consistent s" and "delete_user_try e uid s = (r, s1)"
  shows "distinct (map user_id (user_locations s1)) \<and> (isl r \<or> session s1 = user_locations s1)"
  using assms unfolding delete_user_try_def prim_defs consistent_def
  by (auto split: sum.splits option.splits prod.splits if_splits)

lemma get_user_try_consistent:
  assumes "consistent s" and "get_user_try e uid s = (r, s1)"
  shows "consistent s1"
  using assms unfolding get_user_try_def prim_defs consistent_def Let_def
  by (auto split: sum.splits option.splits prod.splits if_splits)

lemma handled_consistent:
  assumes "distinct (map user_id (user_locations s1)) \<and> (isl r \<or> session s1 = user_locations s1)"
  shows "consistent (snd (case (r, s1) of (Inr resp, s2) \<Rightarrow> (resp, s2)
                           | (Inl x, s2) \<Rightarrow> on_exception other x s2))"
  using assms by (cases r) (auto simp: consistent_def on_exception_def)

section \<open>Validation and existence checks\<close>

text \<open>
  Claim C10. With the stores initialised, an \<^verbatim>\<open>update_user\<close> whose payload is empty or
  absent (any falsy value: \<^verbatim>\<open>None\<close>, \<^verbatim>\<open>{}\<close>) answers 400 before the existence check:
  whatever the user id, whatever the stores hold and whichever calls would raise, the
  state is returned as it was and no call is made on any collaborator. So an empty
  payload on an unknown id is answered 400, not 404.
\<close>

theorem update_user_empty_payload:
  assumes "db e" and "db_session e" and "\<not> py_truthy update_data"
  shows "update_user e uid update_data s = ((Error UpdateDataRequired, 400), s)
         \<and> new_calls s (snd (update_user e uid update_data s)) = []"
  using assms by (simp add: update_user_def new_calls_def)

theorem update_user_empty_payload_witness:
  "users sample_state ''nobody'' = None
   \<and> update_user sample_env ''nobody'' (JObj []) sample_state
       = ((Error UpdateDataRequired, 400), sample_state)
   \<and> new_calls sample_state (snd (update_user sample_env ''nobody'' (JObj []) sample_state)) = []"
proof -
  have e: "db sample_env" "db_session sample_env"
    by (simp_all add: sample_env_def)
  have p: "\<not> py_truthy (JObj [])"
    by simp
  have n: "users sample_state ''nobody'' = None"
    by (simp add: sample_state_def)
  from update_user_empty_payload [OF e p, of "''nobody''" sample_state] n
  show ?thesis by blast
qed

text \<open>
  Claim C7. With the stores initialised and the document read answering, \<^verbatim>\<open>get_user\<close>
  on an id that has no document answers 404 whatever the relational table holds for
  that id: the only call made is the document read, and the documents, the committed
  rows and the session are left as they were.
\<close>

theorem get_user_not_found:
  assumes "db e" and "db_session e"
    and "\<not> raises e (DocGet uid)"
    and "users s uid = None"
  shows "fst (get_user e uid s) = (Error NotFound, 404)
         \<and> users (snd (get_user e uid s)) = users s
         \<and> user_locations (snd (get_user e uid s)) = user_locations s
         \<and> session (snd (get_user e uid s)) = session s
         \<and> new_calls s (snd (get_user e uid s)) = [DocGet uid]"
  using assms
  by (simp add: get_user_def get_user_try_def doc_get_def record_call_def new_calls_def)

text \<open>The witness: a store where the id has a row in the relational table and no
  document.\<close>

theorem get_user_not_found_witness:
  "rows_of ''test_user_123'' (user_locations (sample_state\<lparr>users := Map.empty\<rparr>))
     = [UserLocation ''test_user_123'' ''POINT(-46.6 -23.5)'']
   \<and> fst (get_user sample_env ''test_user_123'' (sample_state\<lparr>users := Map.empty\<rparr>))
       = (Error NotFound, 404)
   \<and> new_calls (sample_state\<lparr>users := Map.empty\<rparr>)
        (snd (get_user sample_env ''test_user_123'' (sample_state\<lparr>users := Map.empty\<rparr>)))
       = [DocGet ''test_user_123'']"
proof -
  have e: "db sample_env" "db_session sample_env"
    "\<not> raises sample_env (DocGet ''test_user_123'')"
    by (simp_all add: sample_env_def)
  have u: "users (sample_state\<lparr>users := Map.empty\<rparr>) ''test_user_123'' = None"
    by simp
  have r: "rows_of ''test_user_123'' (user_locations (sample_state\<lparr>users := Map.empty\<rparr>))
             = [UserLocation ''test_user_123'' ''POINT(-46.6 -23.5)'']"
    by (simp add: sample_state_def rows_of_def)
  from get_user_not_found [OF e u] r
  show ?thesis by blast
qed

section \<open>Events\<close>

text \<open>
  Claim C2. \<^verbatim>\<open>publish_event\<close> is called exactly once by a \<^verbatim>\<open>create_user\<close> answered
  201, an \<^verbatim>\<open>update_user\<close> answered 200 and a \<^verbatim>\<open>delete_user\<close> answered 204, with the
  event type of the operation, the id of the user and the payload; under every other
  answer, the 500 of a storage failure among them, it is not called at all.
\<close>

theorem publish_once_on_success:
  "filter is_publish (new_calls s (snd (create_user e uid payload s))) =
     (if snd (fst (create_user e uid payload s)) = 201
      then [PublishEvent ''eventos_usuarios'' ''UserCreated'' uid payload] else [])
   \<and> filter is_publish (new_calls s (snd (update_user e uid payload s))) =
     (if snd (fst (update_user e uid payload s)) = 200
      then [PublishEvent ''eventos_usuarios'' ''UserUpdated'' uid payload] else [])
   \<and> filter is_publish (new_calls s (snd (delete_user e uid s))) =
     (if snd (fst (delete_user e uid s)) = 204
      then [PublishEvent ''eventos_usuarios'' ''UserDeleted'' uid
              (JObj [(''user_id'', JStr uid)])] else [])"
  by (simp only: create_user_publishes update_user_publishes delete_user_publishes simp_thms)

theorem publish_once_on_success_witness:
  "snd (fst (create_user sample_env ''u2'' sample_payload sample_state)) = 201
   \<and> filter is_publish (new_calls sample_state
        (snd (create_user sample_env ''u2'' sample_payload sample_state)))
       = [PublishEvent ''eventos_usuarios'' ''UserCreated'' ''u2'' sample_payload]
   \<and> snd (fst (update_user failing_upsert_env ''test_user_123'' sample_payload sample_state)) = 500
   \<and> filter is_publish (new_calls sample_state
        (snd (update_user failing_upsert_env ''test_user_123'' sample_payload sample_state))) = []
   \<and> snd (fst (delete_user sample_env ''test_user_123'' sample_state)) = 204
   \<and> filter is_publish (new_calls sample_state
        (snd (delete_user sample_env ''test_user_123'' sample_state)))
       = [PublishEvent ''eventos_usuarios'' ''UserDeleted'' ''test_user_123''
            (JObj [(''user_id'', JStr ''test_user_123'')])]"
proof -
  have c: "snd (fst (create_user sample_env ''u2'' sample_payload sample_state)) = 201"
    by (simp add: handler_defs store_defs sample_defs)
  have u: "snd (fst (update_user failing_upsert_env ''test_user_123'' sample_payload sample_state)) = 500"
    by (simp add: handler_defs store_defs sample_defs)
  have d: "snd (fst (delete_user sample_env ''test_user_123'' sample_state)) = 204"
    by (simp add: handler_defs store_defs sample_defs)
  from publish_once_on_success [of sample_state sample_env "''u2''" sample_payload]
    publish_once_on_success [of sample_state failing_upsert_env "''test_user_123''" sample_payload]
    publish_once_on_success [of sample_state sample_env "''test_user_123''" sample_payload]
    c u d
  show ?thesis by simp
qed

section \<open>The order of the writes\<close>

text \<open>
  Claim C1. In every run of \<^verbatim>\<open>create_user\<close>: (1) a commit is called only right after
  a document write for the new id that did not raise; (2) when that document write raises,
  the answer is 500, no commit is called, the session is rolled back last and the
  committed rows are what they were; (3) whenever the request passes validation and the
  \<^verbatim>\<open>try\<close> block raises any exception, the answer is 500 after a rollback, the committed
  rows are what they were, so no row of the new id is committed.
\<close>

theorem create_user_commit_after_upsert:
  assumes run: "create_user e uid user_data s = (resp, s')"
  shows "(Commit \<in> set (new_calls s s') \<longrightarrow>
            (\<exists>d pre post. new_calls s s' = pre @ DocSet uid d # Commit # post
               \<and> Commit \<notin> set pre \<and> \<not> raises e (DocSet uid d)))
       \<and> (\<forall>d. DocSet uid d \<in> set (new_calls s s') \<and> raises e (DocSet uid d) \<longrightarrow>
            resp = (Error CreateError, 500) \<and> Commit \<notin> set (new_calls s s')
            \<and> last (calls s') = Rollback
            \<and> user_locations s' = user_locations s \<and> session s' = user_locations s)
       \<and> (\<forall>copied location_data rest x s1.
            db e \<and> db_session e \<and> py_truthy user_data
            \<and> py_in ''email'' user_data = Inr True \<and> py_in ''name'' user_data = Inr True
            \<and> py_copy user_data = Inr copied
            \<and> py_pop copied ''location'' = Inr (location_data, rest)
            \<and> create_user_try e uid user_data location_data (created_fields rest) s = (Inl x, s1)
            \<longrightarrow> resp = (Error (if x = SQLAlchemyError then GeoDbError else CreateError), 500)
               \<and> s' = rollback s1
               \<and> last (calls s') = Rollback
               \<and> user_locations s' = user_locations s \<and> session s' = user_locations s
               \<and> rows_of uid (user_locations s') = rows_of uid (user_locations s))"
proof (intro conjI allI impI)
  assume c: "Commit \<in> set (new_calls s s')"
  from create_user_outcome [OF run] c
  obtain stage fd post where
    "Commit \<notin> set stage" "\<not> raises e (DocSet uid fd)"
    "new_calls s s' = stage @ DocSet uid fd # Commit # post"
    by auto
  then show "\<exists>d pre post. new_calls s s' = pre @ DocSet uid d # Commit # post
               \<and> Commit \<notin> set pre \<and> \<not> raises e (DocSet uid d)"
    by blast
next
  fix d
  assume d: "DocSet uid d \<in> set (new_calls s s') \<and> raises e (DocSet uid d)"
  from create_user_outcome [OF run] d
  have "resp = (Error CreateError, 500) \<and> Commit \<notin> set (new_calls s s')
        \<and> last (calls s') = Rollback
        \<and> user_locations s' = user_locations s \<and> session s' = user_locations s"
    by auto
  then show "resp = (Error CreateError, 500)" "Commit \<notin> set (new_calls s s')"
    "last (calls s') = Rollback" "user_locations s' = user_locations s"
    "session s' = user_locations s"
    by simp_all
next
  fix copied location_data rest x s1
  assume h: "db e \<and> db_session e \<and> py_truthy user_data
            \<and> py_in ''email'' user_data = Inr True \<and> py_in ''name'' user_data = Inr True
            \<and> py_copy user_data = Inr copied
            \<and> py_pop copied ''location'' = Inr (location_data, rest)
            \<and> create_user_try e uid user_data location_data (created_fields rest) s = (Inl x, s1)"
  then have body: "create_user_try e uid user_data location_data (created_fields rest) s = (Inl x, s1)"
    by simp
  from h run have r: "resp = (Error (if x = SQLAlchemyError then GeoDbError else CreateError), 500)"
    "s' = rollback s1"
    by (simp_all add: create_user_def on_exception_def)
  from r show "resp = (Error (if x = SQLAlchemyError then GeoDbError else CreateError), 500)"
    "s' = rollback s1" by simp_all
  from r create_user_try_raise [OF body]
  show "last (calls s') = Rollback" "user_locations s' = user_locations s"
    "session s' = user_locations s"
    "rows_of uid (user_locations s') = rows_of uid (user_locations s)"
    by simp_all
qed

theorem create_user_commit_after_upsert_witness:
  "create_user failing_upsert_env ''u2'' sample_payload sample_state
     = ((Error CreateError, 500),
        snd (create_user failing_upsert_env ''u2'' sample_payload sample_state))
   \<and> new_calls sample_state (snd (create_user failing_upsert_env ''u2'' sample_payload sample_state))
     = [Add (UserLocation ''u2'' ''POINT(-20.0 -10.0)''),
        DocSet ''u2'' (created_fields [(''email'', JStr ''new@example.com''),
                                       (''name'', JStr ''New User'')]),
        Rollback]
   \<and> Commit \<notin> set (new_calls sample_state
                      (snd (create_user failing_upsert_env ''u2'' sample_payload sample_state)))
   \<and> user_locations (snd (create_user failing_upsert_env ''u2'' sample_payload sample_state))
     = user_locations sample_state
   \<and> session (snd (create_user failing_upsert_env ''u2'' sample_payload sample_state))
     = user_locations sample_state"
proof -
  let ?s' = "snd (create_user failing_upsert_env ''u2'' sample_payload sample_state)"
  let ?d = "created_fields [(''email'', JStr ''new@example.com''), (''name'', JStr ''New User'')]"
  have run: "create_user failing_upsert_env ''u2'' sample_payload sample_state
               = (fst (create_user failing_upsert_env ''u2'' sample_payload sample_state), ?s')"
    by simp
  have tr: "new_calls sample_state ?s'
              = [Add (UserLocation ''u2'' ''POINT(-20.0 -10.0)''), DocSet ''u2'' ?d, Rollback]"
    by (simp add: handler_defs store_defs sample_defs)
  have f: "raises failing_upsert_env (DocSet ''u2'' ?d)"
    by (simp add: failing_upsert_env_def)
  from tr f have "DocSet ''u2'' ?d \<in> set (new_calls sample_state ?s')
                   \<and> raises failing_upsert_env (DocSet ''u2'' ?d)"
    by simp
  with create_user_commit_after_upsert [OF run]
  have "fst (create_user failing_upsert_env ''u2'' sample_payload sample_state)
          = (Error CreateError, 500)
        \<and> Commit \<notin> set (new_calls sample_state ?s')
        \<and> last (calls ?s') = Rollback
        \<and> user_locations ?s' = user_locations sample_state
        \<and> session ?s' = user_locations sample_state"
    by blast
  with run tr show ?thesis
    by simp
qed

section \<open>Validation of a create payload\<close>

text \<open>
  Claim C4, as the code has it. With the stores initialised, \<^verbatim>\<open>create_user\<close> answers
  400 and leaves the state as it was (no call is made) when the payload is absent or
  empty, and when it is an object without the key \<open>email\<close> or without the key \<open>name\<close>.
  An object that has both keys passes validation whatever their values, empty strings
  included: the answer is 201, or the 500 of a failed write. The guard tests that the
  keys are present, not that their values are non-empty.
\<close>

theorem create_user_requires_keys:
  assumes "db e" and "db_session e"
  shows "(\<not> py_truthy user_data \<longrightarrow>
            create_user e uid user_data s = ((Error RequiredFields, 400), s))
       \<and> (''email'' \<notin> set (map fst kvs) \<or> ''name'' \<notin> set (map fst kvs) \<longrightarrow>
            create_user e uid (JObj kvs) s = ((Error RequiredFields, 400), s))
       \<and> (''email'' \<in> set (map fst kvs) \<and> ''name'' \<in> set (map fst kvs) \<longrightarrow>
            snd (fst (create_user e uid (JObj kvs) s)) \<in> {201, 500})"
proof (intro conjI impI)
  assume "\<not> py_truthy user_data"
  with assms show "create_user e uid user_data s = ((Error RequiredFields, 400), s)"
    by (simp add: create_user_def)
next
  assume "''email'' \<notin> set (map fst kvs) \<or> ''name'' \<notin> set (map fst kvs)"
  with assms show "create_user e uid (JObj kvs) s = ((Error RequiredFields, 400), s)"
    by (auto simp: create_user_def split: bool.splits)
next
  assume "''email'' \<in> set (map fst kvs) \<and> ''name'' \<in> set (map fst kvs)"
  with assms show "snd (fst (create_user e uid (JObj kvs) s)) \<in> {201, 500}"
    by (simp only: create_user_object create_user_try_status)
qed

theorem create_user_requires_keys_witness:
  "create_user sample_env ''u2'' JNull sample_state = ((Error RequiredFields, 400), sample_state)
   \<and> create_user sample_env ''u2'' (JObj [(''name'', JStr ''A'')]) sample_state
       = ((Error RequiredFields, 400), sample_state)
   \<and> snd (fst (create_user sample_env ''u2'' (JObj [(''email'', JStr ''''), (''name'', JStr '''')])
                  sample_state)) \<in> {201, 500}"
proof -
  have e: "db sample_env" "db_session sample_env"
    by (simp_all add: sample_env_def)
  from create_user_requires_keys [OF e, of JNull "''u2''" sample_state "[(''name'', JStr ''A'')]"]
    create_user_requires_keys [OF e, of JNull "''u2''" sample_state
      "[(''email'', JStr ''''), (''name'', JStr '''')]"]
  show ?thesis by simp
qed

text \<open>
  The claim as the specification states it fails: a payload whose \<open>email\<close> and \<open>name\<close>
  are both the empty string is answered 201 and its document is stored.
\<close>

theorem create_user_empty_email_counterexample:
  "fst (create_user sample_env ''u2'' (JObj [(''email'', JStr ''''), (''name'', JStr '''')]) sample_state)
     = (Created ''u2'', 201)
   \<and> users (snd (create_user sample_env ''u2'' (JObj [(''email'', JStr ''''), (''name'', JStr '''')])
                   sample_state)) ''u2''
     = Some [(''email'', Val (JStr '''')), (''name'', Val (JStr '''')),
             (''created_at'', SERVER_TIMESTAMP), (''updated_at'', SERVER_TIMESTAMP)]"
  by (simp add: handler_defs store_defs sample_defs)

section \<open>The row of a user\<close>

text \<open>
  Claim C5. With the stores initialised and no call raising, on a table with one row
  per \<open>user_id\<close> at most and a session with nothing pending, \<^verbatim>\<open>update_user\<close> on an
  existing user with a payload whose \<open>location\<close> is an object holding \<open>latitude\<close> and
  \<open>longitude\<close> answers 200 and: when the user has no row, one row is appended with the
  text \<^verbatim>\<open>POINT(lon lat)\<close>; when the user has a row, that row is assigned the text where
  it stands, nothing is added and the table has the same keys in the same order. Either
  way the user has exactly one row afterwards, holding the new text.
\<close>

theorem update_user_upserts_location:
  assumes "db e" and "db_session e" and "\<And>c. \<not> raises e c"
    and "map_of kvs ''location'' = Some (JObj loc)"
    and "map_of loc ''latitude'' = Some lat" and "map_of loc ''longitude'' = Some lon"
    and "users s uid = Some d"
    and "session s = user_locations s"
    and "distinct (map user_id (user_locations s))"
  shows "fst (update_user e uid (JObj kvs) s) = (Updated uid, 200)
       \<and> (rows_of uid (user_locations s) = [] \<longrightarrow>
            user_locations (snd (update_user e uid (JObj kvs) s))
              = user_locations s @ [UserLocation uid (wkt_point e lon lat)])
       \<and> (rows_of uid (user_locations s) \<noteq> [] \<longrightarrow>
            user_locations (snd (update_user e uid (JObj kvs) s))
              = assign_location uid (wkt_point e lon lat) (user_locations s)
            \<and> map user_id (user_locations (snd (update_user e uid (JObj kvs) s)))
              = map user_id (user_locations s)
            \<and> (\<forall>r. Add r \<notin> set (new_calls s (snd (update_user e uid (JObj kvs) s)))))
       \<and> rows_of uid (user_locations (snd (update_user e uid (JObj kvs) s)))
           = [UserLocation uid (wkt_point e lon lat)]
       \<and> session (snd (update_user e uid (JObj kvs) s))
           = user_locations (snd (update_user e uid (JObj kvs) s))"
proof -
  let ?wkt = "wkt_point e lon lat"
  from assms(4) have ne: "kvs \<noteq> []" by auto
  note loc = location_wkt_object [OF assms(5,6), of e]
  show ?thesis
  proof (cases "find (\<lambda>r. user_id r = uid) (user_locations s)")
    case None
    then have empty: "rows_of uid (user_locations s) = []"
      by (simp add: find_rows_of)
    then have fresh: "uid \<notin> user_id ` set (user_locations s)"
      by (rule rows_of_empty_notin)
    from assms ne loc None fresh
    have "fst (update_user e uid (JObj kvs) s) = (Updated uid, 200)"
      "user_locations (snd (update_user e uid (JObj kvs) s))
         = user_locations s @ [UserLocation uid ?wkt]"
      "session (snd (update_user e uid (JObj kvs) s))
         = user_locations s @ [UserLocation uid ?wkt]"
      by (simp_all add: update_user_def update_user_try_def upsert_location_def prim_defs Let_def)
    with empty show ?thesis
      by (simp add: rows_of_add)
  next
    case (Some r)
    then have present: "rows_of uid (user_locations s) \<noteq> []"
      using find_rows_of [of uid "user_locations s"] by simp
    from assms ne loc Some
    have "fst (update_user e uid (JObj kvs) s) = (Updated uid, 200)"
      "user_locations (snd (update_user e uid (JObj kvs) s))
         = assign_location uid ?wkt (user_locations s)"
      "session (snd (update_user e uid (JObj kvs) s))
         = assign_location uid ?wkt (user_locations s)"
      "new_calls s (snd (update_user e uid (JObj kvs) s))
         = DocGet uid # Query uid #
           DocUpdate uid (AList.update ''updated_at'' SERVER_TIMESTAMP
                            (to_fields (AList.delete ''location'' kvs))) # Commit #
           new_calls s (publish_event e ''eventos_usuarios'' ''UserUpdated'' uid (JObj kvs) None s)"
      by (simp_all add: update_user_def update_user_try_def upsert_location_def prim_defs
            new_calls_def Let_def)
    with present assms(9) show ?thesis
      by (simp add: rows_of_assign new_calls_def)
  qed
qed

theorem update_user_upserts_location_witness:
  "rows_of ''test_user_123'' (user_locations sample_state)
     = [UserLocation ''test_user_123'' ''POINT(-46.6 -23.5)'']
   \<and> user_locations (snd (update_user sample_env ''test_user_123'' sample_update sample_state))
     = [UserLocation ''test_user_123'' ''POINT(-20.0 -10.0)'']
   \<and> user_locations (snd (update_user sample_env ''test_user_123'' sample_update
                            (sample_state\<lparr>user_locations := [], session := []\<rparr>)))
     = [UserLocation ''test_user_123'' ''POINT(-20.0 -10.0)'']"
proof -
  let ?loc = "[(''latitude'', JFloat (- 10)), (''longitude'', JFloat (- 20))]"
  let ?kvs = "[(''location'', JObj ?loc)]"
  let ?empty = "sample_state\<lparr>user_locations := [], session := []\<rparr>"
  have e: "db sample_env" "db_session sample_env" "\<And>c. \<not> raises sample_env c"
    by (simp_all add: sample_env_def)
  have p: "map_of ?kvs ''location'' = Some (JObj ?loc)"
    "map_of ?loc ''latitude'' = Some (JFloat (- 10))"
    "map_of ?loc ''longitude'' = Some (JFloat (- 20))"
    by simp_all
  have w: "wkt_point sample_env (JFloat (- 20)) (JFloat (- 10)) = ''POINT(-20.0 -10.0)''"
    by (simp add: wkt_point_def sample_defs)
  have s1: "users sample_state ''test_user_123''
              = Some [(''email'', Val (JStr ''test@example.com'')),
                      (''name'', Val (JStr ''Test User'')),
                      (''created_at'', SERVER_TIMESTAMP), (''updated_at'', SERVER_TIMESTAMP)]"
    "session sample_state = user_locations sample_state"
    "distinct (map user_id (user_locations sample_state))"
    by (simp_all add: sample_state_def)
  have s2: "users ?empty ''test_user_123''
              = Some [(''email'', Val (JStr ''test@example.com'')),
                      (''name'', Val (JStr ''Test User'')),
                      (''created_at'', SERVER_TIMESTAMP), (''updated_at'', SERVER_TIMESTAMP)]"
    "session ?empty = user_locations ?empty"
    "distinct (map user_id (user_locations ?empty))"
    by (simp_all add: sample_state_def)
  have r1: "rows_of ''test_user_123'' (user_locations sample_state)
              = [UserLocation ''test_user_123'' ''POINT(-46.6 -23.5)'']"
    by (simp add: sample_state_def rows_of_def)
  have a1: "assign_location ''test_user_123'' ''POINT(-20.0 -10.0)'' (user_locations sample_state)
              = [UserLocation ''test_user_123'' ''POINT(-20.0 -10.0)'']"
    by (simp add: sample_state_def)
  have r2: "rows_of ''test_user_123'' (user_locations ?empty) = []"
    "user_locations ?empty = []"
    by (simp_all add: rows_of_def)
  from update_user_upserts_location [OF e p s1] r1
  have t1: "user_locations (snd (update_user sample_env ''test_user_123'' (JObj ?kvs) sample_state))
              = assign_location ''test_user_123''
                  (wkt_point sample_env (JFloat (- 20)) (JFloat (- 10)))
                  (user_locations sample_state)"
    by simp
  from update_user_upserts_location [OF e p s2] r2
  have t2: "user_locations (snd (update_user sample_env ''test_user_123'' (JObj ?kvs) ?empty))
              = user_locations ?empty
                @ [UserLocation ''test_user_123''
                     (wkt_point sample_env (JFloat (- 20)) (JFloat (- 10)))]"
    by blast
  from t1 t2 r1 show ?thesis
    unfolding sample_update_def w a1 r2 by simp
qed

text \<open>
  Claim C6. With the stores initialised and no call raising, on a table with one row
  per \<open>user_id\<close> at most and a session with nothing pending, \<^verbatim>\<open>delete_user\<close> on an
  existing user answers 204, removes the document and leaves the table without any row
  of the user and with every other row; when the user had no row the table is what it
  was and no delete is issued to the session. A second \<^verbatim>\<open>delete_user\<close> on the same id
  is answered 404.
\<close>

theorem delete_user_removes_both:
  assumes "db e" and "db_session e" and "\<And>c. \<not> raises e c"
    and "users s uid = Some d"
    and "session s = user_locations s"
    and "distinct (map user_id (user_locations s))"
  shows "fst (delete_user e uid s) = (NoContent, 204)
       \<and> users (snd (delete_user e uid s)) uid = None
       \<and> user_locations (snd (delete_user e uid s))
           = filter (\<lambda>r. user_id r \<noteq> uid) (user_locations s)
       \<and> rows_of uid (user_locations (snd (delete_user e uid s))) = []
       \<and> session (snd (delete_user e uid s)) = user_locations (snd (delete_user e uid s))
       \<and> (rows_of uid (user_locations s) = [] \<longrightarrow>
            user_locations (snd (delete_user e uid s)) = user_locations s
            \<and> (\<forall>r. Delete r \<notin> set (new_calls s (snd (delete_user e uid s)))))
       \<and> fst (delete_user e uid (snd (delete_user e uid s))) = (Error NotFound, 404)"
proof -
  let ?s' = "snd (delete_user e uid s)"
  let ?rest = "filter (\<lambda>r. user_id r \<noteq> uid) (user_locations s)"
  have main: "fst (delete_user e uid s) = (NoContent, 204) \<and> users ?s' uid = None
       \<and> user_locations ?s' = ?rest \<and> session ?s' = ?rest
       \<and> (rows_of uid (user_locations s) = [] \<longrightarrow>
            user_locations ?s' = user_locations s
            \<and> (\<forall>r. Delete r \<notin> set (new_calls s ?s')))"
  proof (cases "find (\<lambda>r. user_id r = uid) (user_locations s)")
    case None
    then have "rows_of uid (user_locations s) = []"
      by (simp add: find_rows_of)
    then have "uid \<notin> user_id ` set (user_locations s)"
      by (rule rows_of_empty_notin)
    then have same: "?rest = user_locations s"
      by (rule filter_other_users)
    from delete_user_no_row [OF assms None] show ?thesis
      unfolding same by blast
  next
    case (Some r)
    then have present: "rows_of uid (user_locations s) \<noteq> []"
      using find_rows_of [of uid "user_locations s"] by simp
    from assms(6) Some have rm: "remove1 r (user_locations s) = ?rest"
      by (rule remove1_row)
    from assms(6) have "distinct (map user_id ?rest)"
      by (rule distinct_map_filter)
    then have "distinct (map user_id (remove1 r (user_locations s)))"
      unfolding rm .
    from delete_user_row [OF assms(1-5) this Some] present show ?thesis
      unfolding rm by blast
  qed
  then have u: "users ?s' uid = None"
    by blast
  from assms(3) have g: "\<not> raises e (DocGet uid)"
    by simp
  have second: "fst (delete_user e uid ?s') = (Error NotFound, 404)"
    by (rule delete_user_absent [OF assms(1,2) g u])
  from main have eq: "user_locations ?s' = ?rest"
    by blast
  have c4: "rows_of uid (user_locations ?s') = []"
    unfolding eq by simp
  from main have c5: "session ?s' = user_locations ?s'"
    by simp
  from main c4 c5 second show ?thesis
    by blast
qed

theorem delete_user_removes_both_witness:
  "fst (delete_user sample_env ''test_user_123'' sample_state) = (NoContent, 204)
   \<and> users (snd (delete_user sample_env ''test_user_123'' sample_state)) ''test_user_123'' = None
   \<and> user_locations (snd (delete_user sample_env ''test_user_123'' sample_state)) = []
   \<and> fst (delete_user sample_env ''test_user_123''
            (snd (delete_user sample_env ''test_user_123'' sample_state)))
       = (Error NotFound, 404)"
proof -
  have e: "db sample_env" "db_session sample_env" "\<And>c. \<not> raises sample_env c"
    by (simp_all add: sample_env_def)
  have s1: "users sample_state ''test_user_123''
              = Some [(''email'', Val (JStr ''test@example.com'')),
                      (''name'', Val (JStr ''Test User'')),
                      (''created_at'', SERVER_TIMESTAMP), (''updated_at'', SERVER_TIMESTAMP)]"
    "session sample_state = user_locations sample_state"
    "distinct (map user_id (user_locations sample_state))"
    by (simp_all add: sample_state_def)
  have f: "filter (\<lambda>r. user_id r \<noteq> ''test_user_123'') (user_locations sample_state) = []"
    by (simp add: sample_state_def)
  from delete_user_removes_both [OF e s1]
  show ?thesis unfolding f by blast
qed

section \<open>A user without a location\<close>

text \<open>
  Claim C8. With the stores initialised and no call raising, on a session with nothing
  pending and a table with one row per \<open>user_id\<close> at most and none for the new id,
  \<^verbatim>\<open>create_user\<close> with a payload that has \<open>email\<close> and \<open>name\<close> and either no
  \<open>location\<close>, an empty one, or an object lacking \<open>latitude\<close> or \<open>longitude\<close>, answers
  201, adds nothing to the session and leaves the table as it was; \<^verbatim>\<open>get_user\<close> on the
  new id then answers 200 with the stored fields and \<open>id\<close>, and no key \<open>location\<close>.
\<close>

theorem create_user_without_location:
  assumes "db e" and "db_session e" and "\<And>c. \<not> raises e c"
    and "''email'' \<in> set (map fst kvs)" and "''name'' \<in> set (map fst kvs)"
    and "case map_of kvs ''location'' of
           None \<Rightarrow> True
         | Some l \<Rightarrow> \<not> py_truthy l \<or>
             (\<exists>loc. l = JObj loc \<and>
                (''latitude'' \<notin> set (map fst loc) \<or> ''longitude'' \<notin> set (map fst loc)))"
    and "session s = user_locations s"
    and "distinct (map user_id (user_locations s))"
    and "rows_of uid (user_locations s) = []"
  shows "fst (create_user e uid (JObj kvs) s) = (Created uid, 201)
       \<and> user_locations (snd (create_user e uid (JObj kvs) s)) = user_locations s
       \<and> (\<forall>r. Add r \<notin> set (new_calls s (snd (create_user e uid (JObj kvs) s))))
       \<and> rows_of uid (user_locations (snd (create_user e uid (JObj kvs) s))) = []
       \<and> fst (get_user e uid (snd (create_user e uid (JObj kvs) s)))
           = (User (AList.update ''id'' (Val (JStr uid))
                      (created_fields (AList.delete ''location'' kvs))), 200)
       \<and> ''location'' \<notin> set (map fst (AList.update ''id'' (Val (JStr uid))
                                         (created_fields (AList.delete ''location'' kvs))))"
proof -
  let ?s' = "snd (create_user e uid (JObj kvs) s)"
  note run = create_user_no_location_run
    [OF assms(1-5) location_wkt_absent [OF assms(6)] assms(7,8), of uid]
  from run have sess: "session ?s' = user_locations s"
    and doc: "users ?s' uid = Some (created_fields (AList.delete ''location'' kvs))"
    by blast+
  from assms(9) have "find (\<lambda>r. user_id r = uid) (session ?s') = None"
    unfolding sess by (simp add: find_rows_of)
  from get_user_no_row [OF assms(1-3) doc this]
  have got: "fst (get_user e uid ?s')
           = (User (AList.update ''id'' (Val (JStr uid))
                      (created_fields (AList.delete ''location'' kvs))), 200)" .
  from run have same: "user_locations ?s' = user_locations s"
    by blast
  have none: "rows_of uid (user_locations ?s') = []"
    unfolding same by (rule assms(9))
  from run got none location_not_stored [of "Val (JStr uid)" kvs]
  show ?thesis by blast
qed

theorem create_user_without_location_witness:
  "fst (create_user sample_env ''u2'' plain_payload sample_state) = (Created ''u2'', 201)
   \<and> user_locations (snd (create_user sample_env ''u2'' plain_payload sample_state))
       = user_locations sample_state
   \<and> fst (get_user sample_env ''u2'' (snd (create_user sample_env ''u2'' plain_payload sample_state)))
       = (User [(''email'', Val (JStr ''no-loc@example.com'')),
                (''name'', Val (JStr ''No Location User'')),
                (''created_at'', SERVER_TIMESTAMP), (''updated_at'', SERVER_TIMESTAMP),
                (''id'', Val (JStr ''u2''))], 200)"
proof -
  let ?kvs = "[(''email'', JStr ''no-loc@example.com''), (''name'', JStr ''No Location User'')]"
  have e: "db sample_env" "db_session sample_env" "\<And>c. \<not> raises sample_env c"
    by (simp_all add: sample_env_def)
  have p: "''email'' \<in> set (map fst ?kvs)" "''name'' \<in> set (map fst ?kvs)"
    "case map_of ?kvs ''location'' of
       None \<Rightarrow> True
     | Some l \<Rightarrow> \<not> py_truthy l \<or>
         (\<exists>loc. l = JObj loc \<and>
            (''latitude'' \<notin> set (map fst loc) \<or> ''longitude'' \<notin> set (map fst loc)))"
    by simp_all
  have s: "session sample_state = user_locations sample_state"
    "distinct (map user_id (user_locations sample_state))"
    "rows_of ''u2'' (user_locations sample_state) = []"
    by (simp_all add: sample_state_def rows_of_def)
  have d: "AList.update ''id'' (Val (JStr ''u2'')) (created_fields (AList.delete ''location'' ?kvs))
             = [(''email'', Val (JStr ''no-loc@example.com'')),
                (''name'', Val (JStr ''No Location User'')),
                (''created_at'', SERVER_TIMESTAMP), (''updated_at'', SERVER_TIMESTAMP),
                (''id'', Val (JStr ''u2''))]"
    by (simp add: to_fields_def)
  from create_user_without_location [OF e p s]
  show ?thesis unfolding plain_payload_def d by blast
qed

section \<open>The document update\<close>

text \<open>
  Claim C9, as the code has it. With the stores initialised, when the payload is a
  non-empty object, the user exists, the payload's \<open>location\<close> is absent, empty or an
  object, and neither the document read nor the staging of the row raises,
  \<^verbatim>\<open>update_user\<close> calls the document update with the payload's other fields and
  \<open>updated_at\<close>: the mapping it sends is never empty, also when the payload holds a
  \<open>location\<close> and nothing else.
\<close>

theorem update_user_stamps_document:
  assumes "db e" and "db_session e"
    and "\<not> raises e (DocGet uid)" and "\<not> raises e (Query uid)" and "\<And>r. \<not> raises e (Add r)"
    and "kvs \<noteq> []" and "users s uid = Some d"
    and "case map_of kvs ''location'' of
           None \<Rightarrow> True
         | Some l \<Rightarrow> \<not> py_truthy l \<or> (\<exists>loc. l = JObj loc)"
  shows "DocUpdate uid (updated_fields kvs)
           \<in> set (new_calls s (snd (update_user e uid (JObj kvs) s)))
       \<and> updated_fields kvs \<noteq> []
       \<and> map_of (updated_fields kvs) ''updated_at'' = Some SERVER_TIMESTAMP"
proof -
  from location_wkt_returns [OF assms(8)] obtain w where
    "location_wkt e (case map_of kvs ''location'' of None \<Rightarrow> JNull | Some v \<Rightarrow> v) = Inr w"
    by blast
  from update_user_issues_update [OF assms(1-7) this] show ?thesis
    by (simp add: update_conv')
qed

theorem update_user_stamps_document_witness:
  "new_calls sample_state (snd (update_user sample_env ''test_user_123'' sample_update sample_state))
     ! 2 = DocUpdate ''test_user_123'' [(''updated_at'', SERVER_TIMESTAMP)]
   \<and> DocUpdate ''test_user_123'' [(''updated_at'', SERVER_TIMESTAMP)]
       \<in> set (new_calls sample_state
                (snd (update_user sample_env ''test_user_123'' sample_update sample_state)))"
proof -
  let ?kvs = "[(''location'', JObj [(''latitude'', JFloat (- 10)), (''longitude'', JFloat (- 20))])]"
  have e: "db sample_env" "db_session sample_env"
    "\<not> raises sample_env (DocGet ''test_user_123'')"
    "\<not> raises sample_env (Query ''test_user_123'')"
    "\<And>r. \<not> raises sample_env (Add r)"
    by (simp_all add: sample_env_def)
  have p: "?kvs \<noteq> []"
    by simp
  have u: "users sample_state ''test_user_123''
              = Some [(''email'', Val (JStr ''test@example.com'')),
                      (''name'', Val (JStr ''Test User'')),
                      (''created_at'', SERVER_TIMESTAMP), (''updated_at'', SERVER_TIMESTAMP)]"
    by (simp add: sample_state_def)
  have l: "case map_of ?kvs ''location'' of
             None \<Rightarrow> True
           | Some l \<Rightarrow> \<not> py_truthy l \<or> (\<exists>loc. l = JObj loc)"
    by simp
  have f: "updated_fields ?kvs = [(''updated_at'', SERVER_TIMESTAMP)]"
    by (simp add: to_fields_def)
  have n: "new_calls sample_state
             (snd (update_user sample_env ''test_user_123'' (JObj ?kvs) sample_state)) ! 2
             = DocUpdate ''test_user_123'' [(''updated_at'', SERVER_TIMESTAMP)]"
    by (simp add: handler_defs store_defs sample_defs)
  from update_user_stamps_document [OF e p u l] n
  show ?thesis unfolding f sample_update_def by blast
qed

text \<open>
  The claim as the specification states it fails: a request can pass validation and the
  existence check and raise before the document update. The string
  \<^verbatim>\<open>'latitude longitude'\<close> contains both key names, so the test on \<^verbatim>\<open>location_data\<close>
  holds and indexing the string raises \<^verbatim>\<open>TypeError\<close>: the answer is 500 and the only
  calls are the document read and the rollback.
\<close>

theorem update_user_malformed_location_counterexample:
  "users sample_state ''test_user_123'' \<noteq> None
   \<and> py_truthy (JObj [(''location'', JStr ''latitude longitude'')])
   \<and> fst (update_user sample_env ''test_user_123''
            (JObj [(''location'', JStr ''latitude longitude'')]) sample_state)
       = (Error UpdateError, 500)
   \<and> new_calls sample_state
        (snd (update_user sample_env ''test_user_123''
                (JObj [(''location'', JStr ''latitude longitude'')]) sample_state))
       = [DocGet ''test_user_123'', Rollback]"
  by (simp add: handler_defs store_defs sample_defs)

section \<open>Further properties\<close>

text \<open>
  The part of the round trip of a location that lies in the handlers. With the stores
  initialised and no call raising, on a clean session and a fresh id, \<^verbatim>\<open>create_user\<close>
  with a payload holding \<open>email\<close>, \<open>name\<close> and a \<open>location\<close> object with \<open>latitude\<close>
  and \<open>longitude\<close> answers 201, stores the document without its \<open>location\<close>, and
  appends the row whose text is \<^verbatim>\<open>POINT(\<close>, the formatted longitude, a space, the
  formatted latitude and \<^verbatim>\<open>)\<close>. \<^verbatim>\<open>get_user\<close> then answers the document with \<open>id\<close> and
  a \<open>location\<close> whose \<open>latitude\<close> is the \<open>y\<close> and whose \<open>longitude\<close> is the \<open>x\<close> of what
  \<^verbatim>\<open>to_shape\<close> makes of that text.
\<close>

theorem create_user_with_location:
  assumes "db e" and "db_session e" and "\<And>c. \<not> raises e c"
    and "''email'' \<in> set (map fst kvs)" and "''name'' \<in> set (map fst kvs)"
    and "map_of kvs ''location'' = Some (JObj loc)"
    and "map_of loc ''latitude'' = Some lat" and "map_of loc ''longitude'' = Some lon"
    and "session s = user_locations s"
    and "distinct (map user_id (user_locations s))"
    and "rows_of uid (user_locations s) = []"
    and "to_shape e = Some f"
  shows "fst (create_user e uid (JObj kvs) s) = (Created uid, 201)
       \<and> users (snd (create_user e uid (JObj kvs) s)) uid
           = Some (created_fields (AList.delete ''location'' kvs))
       \<and> user_locations (snd (create_user e uid (JObj kvs) s))
           = user_locations s
             @ [UserLocation uid (''POINT('' @ py_format e lon @ '' '' @ py_format e lat @ '')'')]
       \<and> fst (get_user e uid (snd (create_user e uid (JObj kvs) s)))
           = (User (AList.update ''location''
                      (Val (JObj [(''latitude'', point_y (f (wkt_point e lon lat))),
                                  (''longitude'', point_x (f (wkt_point e lon lat)))]))
                      (AList.update ''id'' (Val (JStr uid))
                         (created_fields (AList.delete ''location'' kvs)))), 200)"
proof -
  let ?s' = "snd (create_user e uid (JObj kvs) s)"
  let ?wkt = "wkt_point e lon lat"
  from assms(6) location_wkt_object [OF assms(7,8), of e]
  have loc: "location_wkt e (case map_of kvs ''location'' of None \<Rightarrow> JNull | Some v \<Rightarrow> v)
               = Inr (Some ?wkt)"
    by simp
  from assms(11) have fresh: "uid \<notin> user_id ` set (user_locations s)"
    by (rule rows_of_empty_notin)
  note run = create_user_location_run [OF assms(1-5) loc assms(9,10) fresh]
  from run have sess: "session ?s' = user_locations s @ [UserLocation uid ?wkt]"
    and doc: "users ?s' uid = Some (created_fields (AList.delete ''location'' kvs))"
    by blast+
  from assms(11) have "find (\<lambda>r. user_id r = uid) (session ?s') = Some (UserLocation uid ?wkt)"
    unfolding sess by (rule find_appended_row)
  note got = get_user_row [OF assms(1-3) doc this assms(12)]
  have w: "?wkt = ''POINT('' @ py_format e lon @ '' '' @ py_format e lat @ '')''"
    by (simp add: wkt_point_def)
  from run have rows: "user_locations ?s' = user_locations s @ [UserLocation uid ?wkt]"
    by blast
  from run got rows [unfolded w] show ?thesis
    by blast
qed

theorem create_user_with_location_witness:
  "fst (create_user sample_env ''u2'' sample_payload sample_state) = (Created ''u2'', 201)
   \<and> user_locations (snd (create_user sample_env ''u2'' sample_payload sample_state))
       = [UserLocation ''test_user_123'' ''POINT(-46.6 -23.5)'',
          UserLocation ''u2'' ''POINT(-20.0 -10.0)'']"
proof -
  let ?loc = "[(''latitude'', JFloat (- 10)), (''longitude'', JFloat (- 20))]"
  let ?kvs = "[(''email'', JStr ''new@example.com''), (''name'', JStr ''New User''),
               (''location'', JObj ?loc)]"
  have e: "db sample_env" "db_session sample_env" "\<And>c. \<not> raises sample_env c"
    by (simp_all add: sample_env_def)
  have p: "''email'' \<in> set (map fst ?kvs)" "''name'' \<in> set (map fst ?kvs)"
    "map_of ?kvs ''location'' = Some (JObj ?loc)"
    "map_of ?loc ''latitude'' = Some (JFloat (- 10))"
    "map_of ?loc ''longitude'' = Some (JFloat (- 20))"
    by simp_all
  have s: "session sample_state = user_locations sample_state"
    "distinct (map user_id (user_locations sample_state))"
    "rows_of ''u2'' (user_locations sample_state) = []"
    by (simp_all add: sample_state_def rows_of_def)
  have f: "to_shape sample_env = Some (\<lambda>w. Point (JFloat (- 46.6)) (JFloat (- 23.5)))"
    by (simp add: sample_env_def)
  have w: "''POINT('' @ py_format sample_env (JFloat (- 20)) @ '' ''
             @ py_format sample_env (JFloat (- 10)) @ '')'' = ''POINT(-20.0 -10.0)''"
    by (simp add: sample_defs)
  have t: "user_locations sample_state = [UserLocation ''test_user_123'' ''POINT(-46.6 -23.5)'']"
    by (simp add: sample_state_def)
  from create_user_with_location [OF e p s f]
  have "fst (create_user sample_env ''u2'' (JObj ?kvs) sample_state) = (Created ''u2'', 201)
      \<and> user_locations (snd (create_user sample_env ''u2'' (JObj ?kvs) sample_state))
          = user_locations sample_state
            @ [UserLocation ''u2'' (''POINT('' @ py_format sample_env (JFloat (- 20)) @ '' ''
                 @ py_format sample_env (JFloat (- 10)) @ '')'')]"
    by blast
  then show ?thesis
    unfolding w t sample_payload_def by simp
qed

text \<open>
  No handler leaves a transaction open: started on a session with nothing pending and a
  table with one row per \<open>user_id\<close> at most, each of the four handlers ends, whatever
  the payload and whichever calls raise, on such a session and such a table.
\<close>

theorem handlers_keep_session_clean:
  assumes "consistent s"
  shows "consistent (snd (create_user e uid payload s))
       \<and> consistent (snd (get_user e uid s))
       \<and> consistent (snd (update_user e uid payload s))
       \<and> consistent (snd (delete_user e uid s))"
proof (intro conjI)
  show "consistent (snd (create_user e uid payload s))"
  proof -
    obtain resp s' where run: "create_user e uid payload s = (resp, s')"
      by (cases "create_user e uid payload s")
    from create_user_reach [of e uid payload s] run
    consider (same) "s' = s"
      | (region) loc rest where
          "(resp, s') = (case create_user_try e uid payload loc (created_fields rest) s of
                           (Inr resp, s1) \<Rightarrow> (resp, s1)
                         | (Inl x, s1) \<Rightarrow> on_exception CreateError x s1)"
      by auto
    then have "consistent s'"
    proof cases
      case same
      with assms show ?thesis by simp
    next
      case region
      obtain r s1 where body: "create_user_try e uid payload loc (created_fields rest) s = (r, s1)"
        by (cases "create_user_try e uid payload loc (created_fields rest) s")
      from handled_consistent [OF create_user_try_consistent [OF assms body], of CreateError]
        region body
      show ?thesis by (metis snd_conv)
    qed
    with run show ?thesis by simp
  qed
next
  show "consistent (snd (get_user e uid s))"
  proof -
    obtain r s1 where body: "get_user_try e uid s = (r, s1)"
      by (cases "get_user_try e uid s")
    from get_user_try_consistent [OF assms body] assms body show ?thesis
      by (cases r) (simp_all add: get_user_def)
  qed
next
  show "consistent (snd (update_user e uid payload s))"
  proof -
    obtain r s1 where body: "update_user_try e uid payload s = (r, s1)"
      by (cases "update_user_try e uid payload s")
    from handled_consistent [OF update_user_try_consistent [OF assms body], of UpdateError]
      assms body
    show ?thesis by (simp add: update_user_def)
  qed
next
  show "consistent (snd (delete_user e uid s))"
  proof -
    obtain r s1 where body: "delete_user_try e uid s = (r, s1)"
      by (cases "delete_user_try e uid s")
    from handled_consistent [OF delete_user_try_consistent [OF assms body], of DeleteError]
      assms body
    show ?thesis by (simp add: delete_user_def)
  qed
qed

theorem handlers_keep_session_clean_witness:
  "consistent sample_state
   \<and> consistent (snd (update_user failing_upsert_env ''test_user_123'' sample_update sample_state))
   \<and> consistent (snd (create_user sample_env ''u2'' sample_payload sample_state))"
proof -
  have c: "consistent sample_state"
    by (simp add: consistent_def sample_state_def)
  from handlers_keep_session_clean [OF c, of failing_upsert_env "''test_user_123''" sample_update]
    handlers_keep_session_clean [OF c, of sample_env "''u2''" sample_payload] c
  show ?thesis by blast
qed

end
